theory Spec2Isabelle
  imports Main "HOL-Library.Word" "HOL-Library.Char_ord" "HOL-Library.List_Lexorder"
    "HOL-Library.Product_Lexorder"
begin

unbundle bit_operations_syntax

section \<open>Strings, errors and text helpers\<close>

text \<open>
  A JavaScript string is a sequence of 16-bit code units. A string literal of the sources is
  written \<open>js ''...''\<close>: each of its characters is in the ASCII range and is its own code
  unit. The bytes of a stored object are a HOL \<open>string\<close>, one character per byte.
\<close>

type_synonym jchar = "16 word"
type_synonym jstring = "jchar list"
type_synonym bytes = string

definition ch :: "char \<Rightarrow> jchar" where
  "ch c = of_char c"

definition js :: "string \<Rightarrow> jstring" where
  "js s = map ch s"

text \<open>
  The HTTP error classes of the service (\<^verbatim>\<open>BadRequestError\<close>, \<^verbatim>\<open>NotFoundError\<close>,
  \<^verbatim>\<open>InternalServerError\<close>) carry a message. An exception raised by the object-store client
  itself is a \<open>ClientFault\<close> with the \<^verbatim>\<open>name\<close>, \<^verbatim>\<open>message\<close> and
  \<^verbatim>\<open>$metadata.httpStatusCode\<close> of the thrown object; iterating a response body that is
  \<^verbatim>\<open>undefined\<close> raises a \<open>TypeError\<close>.
\<close>

datatype s3_fault = S3Fault (fault_name: jstring) (fault_message: jstring) (fault_status: "nat option")

datatype error =
    BadRequestError jstring
  | NotFoundError jstring
  | InternalServerError jstring
  | ClientFault s3_fault
  | TypeError jstring

text \<open>
  The code units that \<^verbatim>\<open>String.prototype.trim\<close>, \<^verbatim>\<open>trimStart\<close> and \<^verbatim>\<open>trimEnd\<close> strip, and
  that \<^verbatim>\<open>parseInt\<close> skips: the white space of ECMAScript (TAB, VT, FF, SP, NBSP, the byte
  order mark U+FEFF and the other space separators U+1680, U+2000 to U+200A, U+202F, U+205F,
  U+3000) and its line terminators (LF, CR, U+2028, U+2029).
\<close>

definition is_space :: "jchar \<Rightarrow> bool" where
  "is_space c =
     (c \<in> {0x0009, 0x000A, 0x000B, 0x000C, 0x000D, 0x0020, 0x00A0, 0x1680, 0x2028, 0x2029,
            0x202F, 0x205F, 0x3000, 0xFEFF}
      \<or> (0x2000 \<le> c \<and> c \<le> 0x200A))"

definition trimStart :: "jstring \<Rightarrow> jstring" where
  "trimStart s = dropWhile is_space s"

definition trimEnd :: "jstring \<Rightarrow> jstring" where
  "trimEnd s = rev (dropWhile is_space (rev s))"

definition trim :: "jstring \<Rightarrow> jstring" where
  "trim s = trimStart (trimEnd s)"

section \<open>Digests, hexadecimal text and \<^verbatim>\<open>parseInt\<close>\<close>

text \<open>
  \<^verbatim>\<open>createHash("md5")\<close> and \<^verbatim>\<open>createHash("sha256")\<close> belong to the platform's crypto
  library. They enter the model as parameters: a digest function maps the hashed data (a
  string, which the library encodes as UTF-8, for MD5; the bytes of an object for SHA-256) to
  a word of the digest's width (128 bits for MD5, 256 bits for SHA-256). Everything the
  repository's code does with the digest is modelled: \<^verbatim>\<open>digest("hex")\<close> writes the word as
  lower-case hexadecimal text, most significant nibble first.
\<close>

type_synonym md5_fn = "jstring \<Rightarrow> 128 word"
type_synonym sha256_fn = "bytes \<Rightarrow> 256 word"

definition hex_digit :: "nat \<Rightarrow> jchar" where
  "hex_digit n = js ''0123456789abcdef'' ! (n mod 16)"

definition digest_hex :: "'a::len word \<Rightarrow> jstring" where
  "digest_hex w =
     map (\<lambda>i. hex_digit (unat (drop_bit (4 * i) w AND 15))) (rev [0..<LENGTH('a) div 4])"

definition hex_value :: "jchar \<Rightarrow> int option" where
  "hex_value c =
     (let n = uint c in
      if 48 \<le> n \<and> n \<le> 57 then Some (n - 48)
      else if 97 \<le> n \<and> n \<le> 102 then Some (n - 87)
      else if 65 \<le> n \<and> n \<le> 70 then Some (n - 55)
      else None)"

definition is_hex :: "jchar \<Rightarrow> bool" where
  "is_hex c = (hex_value c \<noteq> None)"

text \<open>
  \<^verbatim>\<open>parseInt(s, 16)\<close>: leading white space is skipped, then an optional sign and an optional
  \<^verbatim>\<open>0x\<close> prefix; the longest run of hexadecimal digits that follows is the value. No digit
  at all gives \<^verbatim>\<open>NaN\<close>, here \<open>None\<close>.
\<close>

definition strip_sign :: "jstring \<Rightarrow> int \<times> jstring" where
  "strip_sign s =
     (case s of
        c # cs \<Rightarrow> if c = ch CHR ''-'' then (-1, cs) else if c = ch CHR ''+'' then (1, cs) else (1, s)
      | [] \<Rightarrow> (1, s))"

definition strip_0x :: "jstring \<Rightarrow> jstring" where
  "strip_0x s =
     (case s of
        a # b # cs \<Rightarrow> if a = ch CHR ''0'' \<and> (b = ch CHR ''x'' \<or> b = ch CHR ''X'') then cs else s
      | _ \<Rightarrow> s)"

definition hex_number :: "jstring \<Rightarrow> int" where
  "hex_number ds = foldl (\<lambda>acc c. 16 * acc + (case hex_value c of Some v \<Rightarrow> v | None \<Rightarrow> 0)) 0 ds"

definition parseInt16 :: "jstring \<Rightarrow> int option" where
  "parseInt16 s =
     (let (sign, body) = strip_sign (trimStart s);
          ds = takeWhile is_hex (strip_0x body)
      in if ds = [] then None else Some (sign * hex_number ds))"

text \<open>The remainder operator \<^verbatim>\<open>%\<close> takes the sign of the dividend.\<close>

definition js_rem :: "int \<Rightarrow> int \<Rightarrow> int" where
  "js_rem a b = (if a < 0 then - ((- a) mod \<bar>b\<bar>) else a mod \<bar>b\<bar>)"

section \<open>Rollout bucket and eligibility\<close>

text \<open>
  \<^verbatim>\<open>getDeviceRolloutBucket\<close> (helpers.ts): the first eight characters of the hexadecimal MD5
  digest of the device id, read as a base-16 integer, modulo 100. The result is a
  JavaScript number; \<open>None\<close> stands for \<^verbatim>\<open>NaN\<close>.
\<close>

definition getDeviceRolloutBucket :: "md5_fn \<Rightarrow> jstring \<Rightarrow> int option" where
  "getDeviceRolloutBucket md5 deviceId =
     (let hash = digest_hex (md5 deviceId);
          hashPrefix = take 8 hash
      in map_option (\<lambda>n. js_rem n 100) (parseInt16 hashPrefix))"

text \<open>
  \<^verbatim>\<open>isDeviceEligibleForLatestRelease\<close> (releases.ts). A comparison with \<^verbatim>\<open>NaN\<close> is false.
\<close>

definition isDeviceEligibleForLatestRelease :: "md5_fn \<Rightarrow> int \<Rightarrow> jstring \<Rightarrow> bool" where
  "isDeviceEligibleForLatestRelease md5 rolloutPercentage deviceId =
     (if rolloutPercentage = 100 then True
      else (case getDeviceRolloutBucket md5 deviceId of
              None \<Rightarrow> False
            | Some bucket \<Rightarrow> bucket < rolloutPercentage))"


section \<open>Semantic versions\<close>

text \<open>
  The repository uses the \<^verbatim>\<open>semver\<close> package (node-semver 7, strict mode) for three things:
  \<^verbatim>\<open>semver.valid\<close>, \<^verbatim>\<open>semver.maxSatisfying\<close> and \<^verbatim>\<open>validRange\<close>. Versions are modelled
  in full: the grammar \<^verbatim>\<open>v?MAJOR.MINOR.PATCH(-PRERELEASE)?(+BUILD)?\<close> and the precedence
  order.

  The package turns a run of digits into a number with the unary \<^verbatim>\<open>+\<close>, that is, into the
  nearest double-precision value, ties to even. \<open>toNumber n\<close> is that value for the integer
  \<open>n\<close> a run of digits denotes: \<open>n\<close> itself below \<open>2 ^ 53\<close>, and otherwise \<open>n\<close> rounded to 53
  significant bits. (A version has at most 256 characters, so the value is finite.)
\<close>

function bit_length :: "int \<Rightarrow> nat" where
  "bit_length n = (if n \<le> 0 then 0 else Suc (bit_length (n div 2)))"
  by pat_completeness auto
termination
  by (relation "measure nat") auto

definition toNumber :: "int \<Rightarrow> int" where
  "toNumber n =
     (if n < 2 ^ 53 then n
      else
        (let e = bit_length n - 53;
             q = n div 2 ^ e;
             r = n mod 2 ^ e;
             half = 2 ^ (e - 1)
         in (if r > half \<or> (r = half \<and> odd q) then q + 1 else q) * 2 ^ e))"

datatype pre_id = PNum int | PStr jstring

record semver =
  major :: int
  minor :: int
  patch :: int
  prerelease :: "pre_id list"
  build :: "jstring list"

fun split_on :: "jchar \<Rightarrow> jstring \<Rightarrow> jstring list" where
  "split_on d [] = [[]]"
| "split_on d (c # cs) =
     (if c = d then [] # split_on d cs
      else (case split_on d cs of p # ps \<Rightarrow> (c # p) # ps | [] \<Rightarrow> [[c]]))"

definition is_digit :: "jchar \<Rightarrow> bool" where
  "is_digit c = (ch CHR ''0'' \<le> c \<and> c \<le> ch CHR ''9'')"

text \<open>\<^verbatim>\<open>[a-zA-Z0-9-]\<close>\<close>

definition is_ident_char :: "jchar \<Rightarrow> bool" where
  "is_ident_char c =
     ((ch CHR ''0'' \<le> c \<and> c \<le> ch CHR ''9'') \<or> (ch CHR ''A'' \<le> c \<and> c \<le> ch CHR ''Z'') \<or>
      (ch CHR ''a'' \<le> c \<and> c \<le> ch CHR ''z'') \<or> c = ch CHR ''-'')"

text \<open>The integer that a run of decimal digits denotes.\<close>

definition digits_value :: "jstring \<Rightarrow> int" where
  "digits_value ds = foldl (\<lambda>acc c. 10 * acc + (uint c - 48)) 0 ds"

definition MAX_SAFE_INTEGER :: int where
  "MAX_SAFE_INTEGER = 9007199254740991"

definition MAX_LENGTH :: nat where
  "MAX_LENGTH = 256"

text \<open>\<^verbatim>\<open>0|[1-9]\d*\<close>\<close>

definition numeric_identifier :: "jstring \<Rightarrow> bool" where
  "numeric_identifier s = (s \<noteq> [] \<and> list_all is_digit s \<and> (s = js ''0'' \<or> hd s \<noteq> ch CHR ''0''))"

text \<open>
  \<^verbatim>\<open>this.major = +m[1]\<close>, and the constructor throws when the number exceeds
  \<^verbatim>\<open>MAX_SAFE_INTEGER\<close>; the same for \<^verbatim>\<open>minor\<close> and \<^verbatim>\<open>patch\<close>.
\<close>

definition parse_main_number :: "jstring \<Rightarrow> int option" where
  "parse_main_number s =
     (if numeric_identifier s \<and> toNumber (digits_value s) \<le> MAX_SAFE_INTEGER
      then Some (toNumber (digits_value s)) else None)"

text \<open>
  A prerelease identifier is a numeric identifier or \<^verbatim>\<open>\d*[a-zA-Z-][a-zA-Z0-9-]*\<close>. The
  constructor keeps a numeric identifier as a number when it is below \<^verbatim>\<open>MAX_SAFE_INTEGER\<close>
  and as its digits otherwise; \<open>PNum n\<close> stands for both, \<open>n\<close> being the integer the digits
  denote (a numeric identifier has no leading zero, so the digits and the integer determine
  each other).
\<close>

definition parse_pre_id :: "jstring \<Rightarrow> pre_id option" where
  "parse_pre_id s =
     (if s = [] then None
      else if list_all is_digit s
        then (if numeric_identifier s then Some (PNum (digits_value s)) else None)
      else if list_all is_ident_char s then Some (PStr s)
      else None)"

definition parse_build_id :: "jstring \<Rightarrow> jstring option" where
  "parse_build_id s = (if s \<noteq> [] \<and> list_all is_ident_char s then Some s else None)"

fun those_all :: "'a option list \<Rightarrow> 'a list option" where
  "those_all [] = Some []"
| "those_all (None # xs) = None"
| "those_all (Some x # xs) = (case those_all xs of None \<Rightarrow> None | Some ys \<Rightarrow> Some (x # ys))"

text \<open>
  \<^verbatim>\<open>new SemVer(version)\<close>: a string longer than \<^verbatim>\<open>MAX_LENGTH\<close> is refused; the rest is
  matched, after \<^verbatim>\<open>trim()\<close>, against the strict grammar. \<open>None\<close> stands for the exception.
\<close>

definition semver_parse :: "jstring \<Rightarrow> semver option" where
  "semver_parse version =
     (if length version > MAX_LENGTH then None
      else
        let t = trim version;
            t = (case t of c # cs \<Rightarrow> if c = ch CHR ''v'' then cs else t | [] \<Rightarrow> t);
            front = takeWhile (\<lambda>c. c \<noteq> ch CHR ''+'') t;
            back = dropWhile (\<lambda>c. c \<noteq> ch CHR ''+'') t;
            main = takeWhile (\<lambda>c. c \<noteq> ch CHR ''-'') front;
            pre = dropWhile (\<lambda>c. c \<noteq> ch CHR ''-'') front;
            bs = (case back of [] \<Rightarrow> Some [] | _ # b \<Rightarrow> those_all (map parse_build_id (split_on (ch CHR ''.'') b)));
            ps = (case pre of [] \<Rightarrow> Some [] | _ # p \<Rightarrow> those_all (map parse_pre_id (split_on (ch CHR ''.'') p)))
        in (case (map parse_main_number (split_on (ch CHR ''.'') main), ps, bs) of
              ([Some ma, Some mi, Some pa], Some p, Some b) \<Rightarrow>
                Some \<lparr>major = ma, minor = mi, patch = pa, prerelease = p, build = b\<rparr>
            | _ \<Rightarrow> None))"

text \<open>\<^verbatim>\<open>semver.valid(v)\<close> is used for its truthiness only.\<close>

definition semver_valid :: "jstring \<Rightarrow> bool" where
  "semver_valid v = (semver_parse v \<noteq> None)"

text \<open>
  \<^verbatim>\<open>compareIdentifiers\<close>, \<^verbatim>\<open>compareMain\<close>, \<^verbatim>\<open>comparePre\<close> and \<^verbatim>\<open>compare\<close>: the result is -1, 0
  or 1. Two numeric identifiers are compared as numbers (\<^verbatim>\<open>a = +a; b = +b\<close>), so two
  different identifiers from \<open>2 ^ 53\<close> on can compare equal; two other identifiers are
  compared as strings, code unit by code unit. \<^verbatim>\<open>comparePre\<close> walks the two lists, skips a
  position where the identifiers are identical (\<^verbatim>\<open>a === b\<close>) and returns the comparison of
  the first position where they are not.
\<close>

definition cmp :: "'a::linorder \<Rightarrow> 'a \<Rightarrow> int" where
  "cmp a b = (if a = b then 0 else if a < b then -1 else 1)"

fun compareIdentifiers :: "pre_id \<Rightarrow> pre_id \<Rightarrow> int" where
  "compareIdentifiers (PNum a) (PNum b) = cmp (toNumber a) (toNumber b)"
| "compareIdentifiers (PNum a) (PStr b) = -1"
| "compareIdentifiers (PStr a) (PNum b) = 1"
| "compareIdentifiers (PStr a) (PStr b) = cmp a b"

fun compare_ids :: "pre_id list \<Rightarrow> pre_id list \<Rightarrow> int" where
  "compare_ids [] [] = 0"
| "compare_ids (a # as) [] = 1"
| "compare_ids [] (b # bs) = -1"
| "compare_ids (a # as) (b # bs) = (if a = b then compare_ids as bs else compareIdentifiers a b)"

definition comparePre :: "semver \<Rightarrow> semver \<Rightarrow> int" where
  "comparePre a b =
     (if prerelease a \<noteq> [] \<and> prerelease b = [] then -1
      else if prerelease a = [] \<and> prerelease b \<noteq> [] then 1
      else if prerelease a = [] \<and> prerelease b = [] then 0
      else compare_ids (prerelease a) (prerelease b))"

definition compareMain :: "semver \<Rightarrow> semver \<Rightarrow> int" where
  "compareMain a b =
     (if cmp (major a) (major b) \<noteq> 0 then cmp (major a) (major b)
      else if cmp (minor a) (minor b) \<noteq> 0 then cmp (minor a) (minor b)
      else cmp (patch a) (patch b))"

definition semver_compare :: "semver \<Rightarrow> semver \<Rightarrow> int" where
  "semver_compare a b = (if compareMain a b \<noteq> 0 then compareMain a b else comparePre a b)"

text \<open>
  The precedence order on version strings: \<open>version_le v m\<close> holds when both parse and
  \<open>v\<close> does not compare greater than \<open>m\<close>, \<open>version_lt v m\<close> when \<open>v\<close> compares less than
  \<open>m\<close>. A stable version has no prerelease tags.
\<close>

definition version_le :: "jstring \<Rightarrow> jstring \<Rightarrow> bool" where
  "version_le v m =
     (case (semver_parse v, semver_parse m) of
        (Some a, Some b) \<Rightarrow> semver_compare a b \<le> 0
      | _ \<Rightarrow> False)"

definition version_lt :: "jstring \<Rightarrow> jstring \<Rightarrow> bool" where
  "version_lt v m =
     (case (semver_parse v, semver_parse m) of
        (Some a, Some b) \<Rightarrow> semver_compare a b = -1
      | _ \<Rightarrow> False)"

definition stable_version :: "jstring \<Rightarrow> bool" where
  "stable_version v = (case semver_parse v of Some sv \<Rightarrow> prerelease sv = [] | None \<Rightarrow> False)"

definition prerelease_version :: "jstring \<Rightarrow> bool" where
  "prerelease_version v = (case semver_parse v of Some sv \<Rightarrow> prerelease sv \<noteq> [] | None \<Rightarrow> False)"

text \<open>
  The keys of the order proofs: the comparison of two identifiers is the comparison of their
  keys, and \<^verbatim>\<open>compareMain\<close> is the comparison of the main keys.
\<close>

definition pre_key :: "pre_id \<Rightarrow> bool \<times> int \<times> jstring" where
  "pre_key p = (case p of PNum n \<Rightarrow> (False, toNumber n, []) | PStr s \<Rightarrow> (True, 0, s))"

definition main_key :: "semver \<Rightarrow> int \<times> int \<times> int" where
  "main_key v = (major v, minor v, patch v)"

text \<open>
  Ranges. The range grammar of the package is not modelled: \<open>range_test lib r p\<close> stands for
  \<^verbatim>\<open>new Range(r, {includePrerelease: p})\<close>, \<open>None\<close> when the constructor throws and otherwise
  the range's \<^verbatim>\<open>test\<close> on a parsed version; \<open>valid_range lib\<close> stands for \<^verbatim>\<open>validRange\<close>.
  The single range the repository writes itself, \<^verbatim>\<open>"*"\<close>, is fixed: it matches every version,
  and a version with prerelease tags only under \<^verbatim>\<open>includePrerelease\<close>.
\<close>

record semver_ranges =
  valid_range :: "jstring \<Rightarrow> jstring option"
  range_test :: "jstring \<Rightarrow> bool \<Rightarrow> (semver \<Rightarrow> bool) option"

definition Range_new :: "semver_ranges \<Rightarrow> jstring \<Rightarrow> bool \<Rightarrow> (semver \<Rightarrow> bool) option" where
  "Range_new lib rng includePrerelease =
     (if rng = js ''*'' then Some (\<lambda>v. includePrerelease \<or> prerelease v = [])
      else range_test lib rng includePrerelease)"

text \<open>\<^verbatim>\<open>Range.test(version)\<close> on a string: a string that is no version does not match.\<close>

definition Range_test :: "(semver \<Rightarrow> bool) \<Rightarrow> jstring \<Rightarrow> bool" where
  "Range_test t v = (case semver_parse v of None \<Rightarrow> False | Some sv \<Rightarrow> t sv)"

text \<open>
  \<^verbatim>\<open>maxSatisfying(versions, range, options)\<close>: \<^verbatim>\<open>null\<close> for a range that does not parse;
  otherwise one pass over the list that keeps the first version matching the range and
  replaces it by each later matching version that compares greater.
\<close>

definition maxSatisfying_step :: "(semver \<Rightarrow> bool) \<Rightarrow> jstring \<Rightarrow> jstring option \<Rightarrow> jstring option" where
  "maxSatisfying_step t v mx =
     (if Range_test t v then
        (case mx of
           None \<Rightarrow> Some v
         | Some m \<Rightarrow>
             (case (semver_parse m, semver_parse v) of
                (Some msv, Some sv) \<Rightarrow> if semver_compare msv sv = -1 then Some v else Some m
              | _ \<Rightarrow> Some m))
      else mx)"

definition maxSatisfying :: "semver_ranges \<Rightarrow> jstring list \<Rightarrow> jstring \<Rightarrow> bool \<Rightarrow> jstring option" where
  "maxSatisfying lib versions rng includePrerelease =
     (case Range_new lib rng includePrerelease of
        None \<Rightarrow> None
      | Some t \<Rightarrow> fold (maxSatisfying_step t) versions None)"

text \<open>\<^verbatim>\<open>toSemverRange\<close> (helpers.ts). An absent or empty string is falsy, and so is an empty result.\<close>

definition toSemverRange :: "semver_ranges \<Rightarrow> jstring option \<Rightarrow> jstring" where
  "toSemverRange lib rng =
     (case rng of
        None \<Rightarrow> js ''*''
      | Some r \<Rightarrow>
          if r = [] then js ''*''
          else (case valid_range lib r of
                  None \<Rightarrow> js ''*''
                | Some n \<Rightarrow> if n = [] then js ''*'' else n))"

section \<open>The object store\<close>

text \<open>
  The S3 client is a collaborator: each command is a function from the request to either a
  fault or the response. \<open>listObjectsV2 prefix delimiter maxKeys\<close> answers with the optional
  lists \<^verbatim>\<open>Contents\<close> (object keys) and \<^verbatim>\<open>CommonPrefixes\<close>; \<open>getObject\<close> answers with the
  optional \<^verbatim>\<open>Body\<close>, a sequence of bytes.
\<close>

record list_output =
  Contents :: "jstring list option"
  CommonPrefixes :: "jstring list option"

record s3_client =
  listObjectsV2 :: "jstring \<Rightarrow> jstring option \<Rightarrow> nat option \<Rightarrow> s3_fault + list_output"
  headObject :: "jstring \<Rightarrow> s3_fault + unit"
  getObject :: "jstring \<Rightarrow> s3_fault + bytes option"

datatype kind = App | System

definition kind_name :: "kind \<Rightarrow> jstring" where
  "kind_name k = (case k of App \<Rightarrow> js ''app'' | System \<Rightarrow> js ''system'')"

definition dquote :: jstring where
  "dquote = [0x22]"

definition DEFAULT_SKU :: jstring where
  "DEFAULT_SKU = js ''jetkvm-v2''"

definition s3ObjectExists :: "s3_client \<Rightarrow> jstring \<Rightarrow> error + bool" where
  "s3ObjectExists s3 key =
     (case headObject s3 key of
        Inr _ \<Rightarrow> Inr True
      | Inl f \<Rightarrow>
          if fault_name f = js ''NotFound'' \<or> fault_name f = js ''NoSuchKey'' \<or> fault_status f = Some 404
          then Inr False
          else Inl (ClientFault f))"

definition versionHasSkuSupport :: "s3_client \<Rightarrow> kind \<Rightarrow> jstring \<Rightarrow> error + bool" where
  "versionHasSkuSupport s3 prefix version =
     (case listObjectsV2 s3 (kind_name prefix @ js ''/'' @ version @ js ''/skus/'') None (Some 1) of
        Inl f \<Rightarrow> Inl (ClientFault f)
      | Inr response \<Rightarrow>
          Inr ((case Contents response of None \<Rightarrow> 0 | Some cs \<Rightarrow> length cs) > 0))"

definition resolveArtifactPath ::
  "s3_client \<Rightarrow> kind \<Rightarrow> jstring \<Rightarrow> jstring \<Rightarrow> jstring option \<Rightarrow> error + jstring" where
  "resolveArtifactPath s3 prefix version sku artifactOverride =
     (let artifact = (case artifactOverride of
                        Some a \<Rightarrow> a
                      | None \<Rightarrow> (case prefix of App \<Rightarrow> js ''jetkvm_app'' | System \<Rightarrow> js ''system.tar''))
      in case versionHasSkuSupport s3 prefix version of
           Inl e \<Rightarrow> Inl e
         | Inr True \<Rightarrow>
             (let skuPath = kind_name prefix @ js ''/'' @ version @ js ''/skus/'' @ sku @ js ''/'' @ artifact
              in case s3ObjectExists s3 skuPath of
                   Inl e \<Rightarrow> Inl e
                 | Inr True \<Rightarrow> Inr skuPath
                 | Inr False \<Rightarrow>
                     Inl (NotFoundError (js ''SKU '' @ dquote @ sku @ dquote @ js '' is not available for version '' @ version)))
         | Inr False \<Rightarrow>
             if sku = DEFAULT_SKU then Inr (kind_name prefix @ js ''/'' @ version @ js ''/'' @ artifact)
             else Inl (NotFoundError (js ''Version '' @ version @
                        js '' predates SKU support and cannot serve SKU '' @ dquote @ sku @ dquote)))"

section \<open>Release metadata and the release cache\<close>

record ReleaseMetadata =
  version :: jstring
  url :: jstring
  hash :: jstring
  cachedAt :: "int option"
  maxSatisfyingOf :: "jstring option"

text \<open>
  \<^verbatim>\<open>Promise.all\<close> over two promises: the pair of the results when both fulfil, the failure
  when one of them rejects, and, when both reject, the failure of the promise that rejects
  first. Which one that is depends on how fast the store answers each lookup; it is a
  parameter of the request.
\<close>

datatype position = First | Second

definition promiseAll :: "position \<Rightarrow> error + 'a \<Rightarrow> error + 'b \<Rightarrow> error + 'a \<times> 'b" where
  "promiseAll rejectsFirst p q =
     (case p of
        Inr x \<Rightarrow> (case q of Inr y \<Rightarrow> Inr (x, y) | Inl err \<Rightarrow> Inl err)
      | Inl err1 \<Rightarrow>
          (case q of
             Inr y \<Rightarrow> Inl err1
           | Inl err2 \<Rightarrow> (case rejectsFirst of First \<Rightarrow> Inl err1 | Second \<Rightarrow> Inl err2)))"

text \<open>
  The collaborators of a request: the object store, the CDN base URL, the clock
  (\<^verbatim>\<open>Date.now()\<close>), the range functions of the semver package, the two digest functions,
  the platform's UTF-8 decoder (\<^verbatim>\<open>Buffer.toString("utf-8")\<close>) and the order in which the two
  promises of the request's \<^verbatim>\<open>Promise.all\<close> reject.
\<close>

record env =
  s3 :: s3_client
  baseUrl :: jstring
  now :: int
  ranges :: semver_ranges
  md5Digest :: md5_fn
  sha256Digest :: sha256_fn
  utf8Decode :: "bytes \<Rightarrow> jstring"
  rejectsFirst :: position

text \<open>
  An LRU cache with a time to live is seen through \<^verbatim>\<open>get\<close> and \<^verbatim>\<open>set\<close>: the map holds the
  entries that \<^verbatim>\<open>get\<close> would return at the time of the request.
\<close>

type_synonym 'v cache = "jstring \<rightharpoonup> 'v"

definition bool_text :: "bool \<Rightarrow> jstring" where
  "bool_text b = (if b then js ''true'' else js ''false'')"

text \<open>\<^verbatim>\<open>cp.Prefix.split("/")[1]\<close>, then \<^verbatim>\<open>filter(Boolean)\<close>.\<close>

definition folder_name :: "jstring \<Rightarrow> jstring option" where
  "folder_name p = (case split_on (ch CHR ''/'') p of _ # n # _ \<Rightarrow> Some n | _ \<Rightarrow> None)"

definition folder_names :: "jstring list \<Rightarrow> jstring list" where
  "folder_names cps = filter (\<lambda>n. n \<noteq> []) (List.map_filter folder_name cps)"

text \<open>\<^verbatim>\<open>streamToString\<close> (helpers.ts): the bytes of the body, decoded, without trailing white space.\<close>

definition streamToString :: "(bytes \<Rightarrow> jstring) \<Rightarrow> bytes \<Rightarrow> jstring" where
  "streamToString decode body = trimEnd (decode body)"

text \<open>The second half of \<^verbatim>\<open>getLatestVersion\<close>, from the resolution of the artifact path on.\<close>

definition fetchRelease ::
  "env \<Rightarrow> kind \<Rightarrow> jstring \<Rightarrow> jstring \<Rightarrow> jstring \<Rightarrow> jstring \<Rightarrow> ReleaseMetadata cache
     \<Rightarrow> (error + ReleaseMetadata) \<times> ReleaseMetadata cache" where
  "fetchRelease e prefix latestVersion rng sku cacheKey cache =
     (case resolveArtifactPath (s3 e) prefix latestVersion sku None of
        Inl err \<Rightarrow> (Inl err, cache)
      | Inr selectedPath \<Rightarrow>
          (case getObject (s3 e) (selectedPath @ js ''.sha256'') of
             Inl f \<Rightarrow> (Inl (ClientFault f), cache)
           | Inr None \<Rightarrow> (Inl (TypeError (js ''stream is not async iterable'')), cache)
           | Inr (Some body) \<Rightarrow>
               (let release = \<lparr>version = latestVersion,
                               url = baseUrl e @ js ''/'' @ selectedPath,
                               hash = streamToString (utf8Decode e) body,
                               cachedAt = Some (now e),
                               maxSatisfyingOf = Some rng\<rparr>
                in (Inr release, cache(cacheKey \<mapsto> release)))))"

definition getLatestVersion ::
  "env \<Rightarrow> kind \<Rightarrow> bool \<Rightarrow> jstring option \<Rightarrow> jstring \<Rightarrow> ReleaseMetadata cache
     \<Rightarrow> (error + ReleaseMetadata) \<times> ReleaseMetadata cache" where
  "getLatestVersion e prefix includePrerelease maxSatisfyingArg sku cache =
     (let rng = (case maxSatisfyingArg of None \<Rightarrow> js ''*'' | Some r \<Rightarrow> r);
          cacheKey = kind_name prefix @ js ''-'' @ bool_text includePrerelease @ js ''-'' @ rng @ js ''-'' @ sku
      in case cache cacheKey of
           Some cached \<Rightarrow> (Inr cached, cache)
         | None \<Rightarrow>
            (case listObjectsV2 (s3 e) (kind_name prefix @ js ''/'') (Some (js ''/'')) None of
               Inl f \<Rightarrow> (Inl (ClientFault f), cache)
             | Inr response \<Rightarrow>
                (case CommonPrefixes response of
                   None \<Rightarrow> (Inl (NotFoundError (js ''No versions found under prefix '' @ kind_name prefix)), cache)
                 | Some cps \<Rightarrow>
                    if cps = [] then
                      (Inl (NotFoundError (js ''No versions found under prefix '' @ kind_name prefix)), cache)
                    else
                      (let versions = filter semver_valid (folder_names cps)
                       in if versions = [] then
                            (Inl (NotFoundError (js ''No valid versions found under prefix '' @ kind_name prefix)), cache)
                          else
                            (case maxSatisfying (ranges e) versions rng includePrerelease of
                               None \<Rightarrow>
                                 (Inl (NotFoundError (js ''No version found under prefix '' @ kind_name prefix @
                                        js '' that satisfies '' @ rng)), cache)
                             | Some latestVersion \<Rightarrow>
                                 fetchRelease e prefix latestVersion rng sku cacheKey cache)))))"

record Release =
  appVersion :: jstring
  appUrl :: jstring
  appHash :: jstring
  appCachedAt :: "int option"
  appMaxSatisfying :: "jstring option"
  systemVersion :: jstring
  systemUrl :: jstring
  systemHash :: jstring
  systemCachedAt :: "int option"
  systemMaxSatisfying :: "jstring option"

definition setAppRelease :: "Release \<Rightarrow> ReleaseMetadata \<Rightarrow> Release" where
  "setAppRelease release appRelease =
     release\<lparr>appVersion := version appRelease, appUrl := url appRelease, appHash := hash appRelease,
             appCachedAt := cachedAt appRelease, appMaxSatisfying := maxSatisfyingOf appRelease\<rparr>"

definition setSystemRelease :: "Release \<Rightarrow> ReleaseMetadata \<Rightarrow> Release" where
  "setSystemRelease release systemRelease =
     release\<lparr>systemVersion := version systemRelease, systemUrl := url systemRelease,
             systemHash := hash systemRelease, systemCachedAt := cachedAt systemRelease,
             systemMaxSatisfying := maxSatisfyingOf systemRelease\<rparr>"

definition toRelease :: "ReleaseMetadata \<Rightarrow> ReleaseMetadata \<Rightarrow> Release" where
  "toRelease appRelease systemRelease =
     \<lparr>appVersion = version appRelease, appUrl = url appRelease, appHash = hash appRelease,
      appCachedAt = cachedAt appRelease, appMaxSatisfying = maxSatisfyingOf appRelease,
      systemVersion = version systemRelease, systemUrl = url systemRelease,
      systemHash = hash systemRelease, systemCachedAt = cachedAt systemRelease,
      systemMaxSatisfying = maxSatisfyingOf systemRelease\<rparr>"

text \<open>
  \<^verbatim>\<open>getReleaseFromS3\<close> starts both lookups and joins them with \<^verbatim>\<open>Promise.all\<close>. Neither
  lookup is cancelled when the other fails, and the two use different cache keys: the cache
  after the call holds what either of them has stored.
\<close>

definition getReleaseFromS3 ::
  "env \<Rightarrow> bool \<Rightarrow> jstring option \<Rightarrow> jstring option \<Rightarrow> jstring \<Rightarrow> ReleaseMetadata cache
     \<Rightarrow> (error + Release) \<times> ReleaseMetadata cache" where
  "getReleaseFromS3 e includePrerelease appVersionArg systemVersionArg sku cache =
     (let (appRelease, cache1) = getLatestVersion e App includePrerelease appVersionArg sku cache;
          (systemRelease, cache2) = getLatestVersion e System includePrerelease systemVersionArg sku cache1
      in case promiseAll (rejectsFirst e) appRelease systemRelease of
           Inl err \<Rightarrow> (Inl err, cache2)
         | Inr (a, s) \<Rightarrow> (Inr (toRelease a s), cache2))"

section \<open>The persisted release store\<close>

text \<open>
  Modelled from the spec: the persisted release store. Its schema and its client (Prisma) are
  not among the sources; the sources only call \<^verbatim>\<open>upsert\<close> and \<^verbatim>\<open>findMany\<close>. A row has the
  fields \<open>version\<close>, \<open>type\<close>, \<open>rolloutPercentage\<close>, \<open>url\<close> and \<open>hash\<close> and is keyed by
  \<open>(version, type)\<close>. \<^verbatim>\<open>upsert({where, update, create})\<close> applies \<open>update\<close> to the row with
  the key when there is one and otherwise inserts \<open>create\<close>; it returns the resulting row.
\<close>

record release_row =
  r_version :: jstring
  r_type :: kind
  rolloutPercentage :: int
  r_url :: jstring
  r_hash :: jstring

record release_update =
  set_rolloutPercentage :: "int option"
  set_url :: "jstring option"
  set_hash :: "jstring option"

definition no_update :: release_update where
  "no_update = \<lparr>set_rolloutPercentage = None, set_url = None, set_hash = None\<rparr>"

definition apply_update :: "release_update \<Rightarrow> release_row \<Rightarrow> release_row" where
  "apply_update u r =
     r\<lparr>rolloutPercentage := (case set_rolloutPercentage u of None \<Rightarrow> rolloutPercentage r | Some p \<Rightarrow> p),
       r_url := (case set_url u of None \<Rightarrow> r_url r | Some x \<Rightarrow> x),
       r_hash := (case set_hash u of None \<Rightarrow> r_hash r | Some x \<Rightarrow> x)\<rparr>"

fun release_upsert ::
  "release_row list \<Rightarrow> jstring \<times> kind \<Rightarrow> release_update \<Rightarrow> release_row
     \<Rightarrow> release_row \<times> release_row list" where
  "release_upsert [] key u c = (c, [c])"
| "release_upsert (r # rs) key u c =
     (if (r_version r, r_type r) = key then (apply_update u r, apply_update u r # rs)
      else (let (x, rs') = release_upsert rs key u c in (x, r # rs')))"

definition release_findMany :: "release_row list \<Rightarrow> kind \<Rightarrow> int \<Rightarrow> release_row list" where
  "release_findMany db t p = filter (\<lambda>r. r_type r = t \<and> rolloutPercentage r = p) db"

definition release_find :: "release_row list \<Rightarrow> jstring \<times> kind \<Rightarrow> release_row option" where
  "release_find db key = find (\<lambda>r. (r_version r, r_type r) = key) db"

text \<open>The \<^verbatim>\<open>select\<close> of the queries: the row as release metadata.\<close>

definition row_metadata :: "release_row \<Rightarrow> ReleaseMetadata" where
  "row_metadata r =
     \<lparr>version = r_version r, url = r_url r, hash = r_hash r, cachedAt = None, maxSatisfyingOf = None\<rparr>"

definition getDefaultRelease :: "env \<Rightarrow> release_row list \<Rightarrow> kind \<Rightarrow> error + ReleaseMetadata" where
  "getDefaultRelease e db t =
     (let rolledOutReleases = release_findMany db t 100
      in if rolledOutReleases = [] then
           Inl (InternalServerError (js ''No default release found for type '' @ kind_name t))
         else
           (let latestVersion = maxSatisfying (ranges e) (map r_version rolledOutReleases) (js ''*'') False;
                latestDefaultRelease =
                  (case latestVersion of
                     None \<Rightarrow> None
                   | Some v \<Rightarrow> find (\<lambda>r. r_version r = v) rolledOutReleases)
            in case latestDefaultRelease of
                 None \<Rightarrow> Inl (InternalServerError (js ''No default release found for type '' @ kind_name t))
               | Some r \<Rightarrow> Inr (row_metadata r)))"

section \<open>The request handlers\<close>

text \<open>
  \<^verbatim>\<open>req.query\<close> is a dictionary of strings; the schemas read the keys they name. (A key
  given more than once reaches the handler as an array, which the schemas reject; the
  dictionary here has strings only.)
\<close>

type_synonym raw_query = "jstring \<rightharpoonup> jstring"

definition queryString :: "jstring option \<Rightarrow> jstring option" where
  "queryString v = (case v of None \<Rightarrow> None | Some x \<Rightarrow> if x = [] then None else Some x)"

definition queryBoolean :: "jstring option \<Rightarrow> bool" where
  "queryBoolean v = (v = Some (js ''true''))"

definition querySku :: "jstring option \<Rightarrow> jstring" where
  "querySku v = (case v of None \<Rightarrow> DEFAULT_SKU | Some x \<Rightarrow> if x = [] then DEFAULT_SKU else x)"

record LatestQuery =
  l_prerelease :: bool
  l_sku :: jstring

record RetrieveQuery =
  q_deviceId :: jstring
  q_prerelease :: bool
  q_appVersion :: "jstring option"
  q_systemVersion :: "jstring option"
  q_sku :: jstring
  q_forceUpdate :: bool

definition parseLatestQuery :: "raw_query \<Rightarrow> error + LatestQuery" where
  "parseLatestQuery q =
     Inr \<lparr>l_prerelease = queryBoolean (q (js ''prerelease'')), l_sku = querySku (q (js ''sku''))\<rparr>"

definition parseRetrieveQuery :: "raw_query \<Rightarrow> error + RetrieveQuery" where
  "parseRetrieveQuery q =
     (case q (js ''deviceId'') of
        None \<Rightarrow> Inl (BadRequestError (js ''Device ID is required''))
      | Some d \<Rightarrow>
          if length d < 1 then Inl (BadRequestError (js ''Device ID is required''))
          else Inr \<lparr>q_deviceId = d,
                    q_prerelease = queryBoolean (q (js ''prerelease'')),
                    q_appVersion = queryString (q (js ''appVersion'')),
                    q_systemVersion = queryString (q (js ''systemVersion'')),
                    q_sku = querySku (q (js ''sku'')),
                    q_forceUpdate = queryBoolean (q (js ''forceUpdate''))\<rparr>)"

text \<open>The process-wide state: the two caches and the rows of the release store.\<close>

record state =
  releaseCache :: "ReleaseMetadata cache"
  redirectCache :: "jstring cache"
  releases :: "release_row list"

text \<open>
  \<^verbatim>\<open>Error.prototype.toString\<close>: the message alone when the name is empty, the name alone when
  the message is empty, and otherwise the name, a colon and a space, and the message.
\<close>

definition error_toString :: "jstring \<Rightarrow> jstring \<Rightarrow> jstring" where
  "error_toString name msg =
     (if name = [] then msg else if msg = [] then name else name @ js '': '' @ msg)"

text \<open>
  The text of \<^verbatim>\<open>${error}\<close>. Only faults of the object-store client and type errors reach the
  place where it is used; the other cases are there for totality.
\<close>

definition error_text :: "error \<Rightarrow> jstring" where
  "error_text err =
     (case err of
        ClientFault f \<Rightarrow> error_toString (fault_name f) (fault_message f)
      | TypeError m \<Rightarrow> error_toString (js ''TypeError'') m
      | NotFoundError m \<Rightarrow> error_toString (js ''Error'') m
      | BadRequestError m \<Rightarrow> error_toString (js ''Error'') m
      | InternalServerError m \<Rightarrow> error_toString (js ''Error'') m)"

text \<open>The \<^verbatim>\<open>catch\<close> around the remote lookup: not-found passes, everything else is wrapped.\<close>

definition remoteFailure :: "error \<Rightarrow> error" where
  "remoteFailure err =
     (case err of
        NotFoundError m \<Rightarrow> NotFoundError m
      | _ \<Rightarrow> InternalServerError (js ''Failed to get the latest release from S3: '' @ error_text err))"

definition new_release_row :: "kind \<Rightarrow> jstring \<Rightarrow> jstring \<Rightarrow> jstring \<Rightarrow> release_row" where
  "new_release_row t v u h =
     \<lparr>r_version = v, r_type = t, rolloutPercentage = 10, r_url = u, r_hash = h\<rparr>"

text \<open>
  The upsert that \<^verbatim>\<open>Retrieve\<close> issues for a resolved version: \<^verbatim>\<open>update: {}\<close> and a
  \<^verbatim>\<open>create\<close> at a rollout percentage of 10.
\<close>

definition upsertLatest ::
  "release_row list \<Rightarrow> kind \<Rightarrow> jstring \<Rightarrow> jstring \<Rightarrow> jstring \<Rightarrow> release_row \<times> release_row list" where
  "upsertLatest db t v u h = release_upsert db (v, t) no_update (new_release_row t v u h)"

definition Retrieve :: "env \<Rightarrow> raw_query \<Rightarrow> state \<Rightarrow> (error + Release) \<times> state" where
  "Retrieve e req st =
     (case parseRetrieveQuery req of
        Inl err \<Rightarrow> (Inl err, st)
      | Inr query \<Rightarrow>
         (let appVersionRange = toSemverRange (ranges e) (q_appVersion query);
              systemVersionRange = toSemverRange (ranges e) (q_systemVersion query);
              skipRollout = (appVersionRange \<noteq> js ''*'' \<or> systemVersionRange \<noteq> js ''*'');
              (remote, cache') = getReleaseFromS3 e (q_prerelease query) (Some appVersionRange)
                                   (Some systemVersionRange) (q_sku query) (releaseCache st);
              st1 = st\<lparr>releaseCache := cache'\<rparr>
          in case remote of
               Inl err \<Rightarrow> (Inl (remoteFailure err), st1)
             | Inr remoteRelease \<Rightarrow>
                 if q_prerelease query \<or> skipRollout then (Inr remoteRelease, st1)
                 else
                   (let (latestAppRelease, db1) =
                          upsertLatest (releases st1) App (appVersion remoteRelease)
                            (appUrl remoteRelease) (appHash remoteRelease);
                        (latestSystemRelease, db2) =
                          upsertLatest db1 System (systemVersion remoteRelease)
                            (systemUrl remoteRelease) (systemHash remoteRelease);
                        st2 = st1\<lparr>releases := db2\<rparr>
                    in if q_forceUpdate query then
                         (Inr (toRelease (row_metadata latestAppRelease) (row_metadata latestSystemRelease)), st2)
                       else
                         (case getDefaultRelease e db2 App of
                            Inl err \<Rightarrow> (Inl err, st2)
                          | Inr defaultAppRelease \<Rightarrow>
                             (case getDefaultRelease e db2 System of
                                Inl err \<Rightarrow> (Inl err, st2)
                              | Inr defaultSystemRelease \<Rightarrow>
                                 (let responseJson = toRelease defaultAppRelease defaultSystemRelease;
                                      responseJson =
                                        (if isDeviceEligibleForLatestRelease (md5Digest e)
                                              (rolloutPercentage latestAppRelease) (q_deviceId query)
                                         then setAppRelease responseJson (row_metadata latestAppRelease)
                                         else responseJson);
                                      responseJson =
                                        (if isDeviceEligibleForLatestRelease (md5Digest e)
                                              (rolloutPercentage latestSystemRelease) (q_deviceId query)
                                         then setSystemRelease responseJson (row_metadata latestSystemRelease)
                                         else responseJson)
                                  in (Inr responseJson, st2)))))))"

section \<open>Integrity check and the redirect endpoints\<close>

text \<open>
  \<^verbatim>\<open>verifyHash(file, hashFile, exception?)\<close> (helpers.ts). The arguments are the two response
  bodies and the optional reason; an absent or empty reason is falsy.
\<close>

definition verifyHash ::
  "sha256_fn \<Rightarrow> (bytes \<Rightarrow> jstring) \<Rightarrow> bytes option \<Rightarrow> bytes option \<Rightarrow> jstring option \<Rightarrow> error + bool" where
  "verifyHash sha decode file hashFile exn =
     (case file of
        None \<Rightarrow> Inl (TypeError (js ''stream is not async iterable''))
      | Some content \<Rightarrow>
         (case hashFile of
            None \<Rightarrow> Inl (TypeError (js ''stream is not async iterable''))
          | Some hashBody \<Rightarrow>
             (let remoteHash = streamToString decode hashBody;
                  localHash = digest_hex (sha content);
                  matches = (trim remoteHash = localHash)
              in case exn of
                   None \<Rightarrow> Inr matches
                 | Some reason \<Rightarrow>
                     if \<not> matches \<and> reason \<noteq> [] then Inl (InternalServerError reason)
                     else Inr matches)))"

definition releaseCacheKey :: "jstring \<Rightarrow> LatestQuery \<Rightarrow> jstring" where
  "releaseCacheKey prefix query =
     prefix @ js ''-'' @ (if l_prerelease query then js ''pre'' else js ''stable'') @ js ''-'' @ l_sku query"

text \<open>
  \<^verbatim>\<open>cachedRedirect(cachedKey, callback)\<close>: the handler answers with a redirect (status and
  target) or fails; a cached target that is not empty is served without calling back.
\<close>

definition cachedRedirect ::
  "(LatestQuery \<Rightarrow> jstring) \<Rightarrow> (LatestQuery \<Rightarrow> error + jstring) \<Rightarrow> raw_query \<Rightarrow> state
     \<Rightarrow> (error + nat \<times> jstring) \<times> state" where
  "cachedRedirect cachedKey callback req st =
     (case parseLatestQuery req of
        Inl err \<Rightarrow> (Inl err, st)
      | Inr query \<Rightarrow>
         (let cacheKey = cachedKey query;
              cached = (case redirectCache st cacheKey of
                          None \<Rightarrow> None
                        | Some r \<Rightarrow> if r = [] then None else Some r)
          in case cached of
               Some result \<Rightarrow> (Inr (302, result), st)
             | None \<Rightarrow>
                 (case callback query of
                    Inl err \<Rightarrow> (Inl err, st)
                  | Inr result \<Rightarrow>
                      (Inr (302, result), st\<lparr>redirectCache := (redirectCache st)(cacheKey \<mapsto> result)\<rparr>))))"

text \<open>
  The common end of the two redirect callbacks: the artifact and its digest file are fetched
  with \<^verbatim>\<open>Promise.all\<close>, and both bodies must be present before the digest is checked.
\<close>

definition sendGetObject :: "s3_client \<Rightarrow> jstring \<Rightarrow> error + bytes option" where
  "sendGetObject client key = (case getObject client key of Inl f \<Rightarrow> Inl (ClientFault f) | Inr r \<Rightarrow> Inr r)"

definition fetchVerified :: "env \<Rightarrow> jstring \<Rightarrow> jstring \<Rightarrow> jstring \<Rightarrow> error + jstring" where
  "fetchVerified e artifactPath missing reason =
     (case promiseAll (rejectsFirst e) (sendGetObject (s3 e) artifactPath)
             (sendGetObject (s3 e) (artifactPath @ js ''.sha256'')) of
        Inl err \<Rightarrow> Inl err
      | Inr (file, hashFile) \<Rightarrow>
          if file = None \<or> hashFile = None then Inl (NotFoundError missing)
          else (case verifyHash (sha256Digest e) (utf8Decode e) file hashFile (Some reason) of
                  Inl err \<Rightarrow> Inl err
                | Inr _ \<Rightarrow> Inr (baseUrl e @ js ''/'' @ artifactPath)))"

definition latestAppCallback :: "env \<Rightarrow> LatestQuery \<Rightarrow> error + jstring" where
  "latestAppCallback e query =
     (case listObjectsV2 (s3 e) (js ''app/'') (Some (js ''/'')) None of
        Inl f \<Rightarrow> Inl (ClientFault f)
      | Inr response \<Rightarrow>
         (case CommonPrefixes response of
            None \<Rightarrow> Inl (NotFoundError (js ''No app versions found''))
          | Some cps \<Rightarrow>
             if cps = [] then Inl (NotFoundError (js ''No app versions found''))
             else
               (let versions = filter semver_valid (List.map_filter folder_name cps)
                in case maxSatisfying (ranges e) versions (js ''*'') (l_prerelease query) of
                     None \<Rightarrow> Inl (NotFoundError (js ''No valid app versions found''))
                   | Some latestVersion \<Rightarrow>
                      (case resolveArtifactPath (s3 e) App latestVersion (l_sku query) None of
                         Inl err \<Rightarrow> Inl err
                       | Inr artifactPath \<Rightarrow>
                           fetchVerified e artifactPath
                             (js ''App or hash file not found for version '' @ latestVersion)
                             (js ''app hash does not match'')))))"

definition latestSystemRecoveryCallback :: "env \<Rightarrow> LatestQuery \<Rightarrow> error + jstring" where
  "latestSystemRecoveryCallback e query =
     (case listObjectsV2 (s3 e) (js ''system/'') (Some (js ''/'')) None of
        Inl f \<Rightarrow> Inl (ClientFault f)
      | Inr response \<Rightarrow>
         (case CommonPrefixes response of
            None \<Rightarrow> Inl (NotFoundError (js ''No versions found under prefix system recovery image''))
          | Some cps \<Rightarrow>
             if cps = [] then Inl (NotFoundError (js ''No versions found under prefix system recovery image''))
             else
               (let versions = filter semver_valid (folder_names cps)
                in case maxSatisfying (ranges e) versions (js ''*'') (l_prerelease query) of
                     None \<Rightarrow> Inl (NotFoundError (js ''No valid system recovery versions found''))
                   | Some latestVersion \<Rightarrow>
                      (case resolveArtifactPath (s3 e) System latestVersion (l_sku query) (Some (js ''update.img'')) of
                         Inl err \<Rightarrow> Inl err
                       | Inr artifactPath \<Rightarrow>
                           fetchVerified e artifactPath
                             (js ''No system recovery image or hash file not found for version '' @ latestVersion)
                             (js ''system recovery image hash does not match'')))))"

definition RetrieveLatestApp :: "env \<Rightarrow> raw_query \<Rightarrow> state \<Rightarrow> (error + nat \<times> jstring) \<times> state" where
  "RetrieveLatestApp e = cachedRedirect (releaseCacheKey (js ''app'')) (latestAppCallback e)"

definition RetrieveLatestSystemRecovery :: "env \<Rightarrow> raw_query \<Rightarrow> state \<Rightarrow> (error + nat \<times> jstring) \<times> state" where
  "RetrieveLatestSystemRecovery e =
     cachedRedirect (releaseCacheKey (js ''system-recovery'')) (latestSystemRecoveryCallback e)"

section \<open>Fixtures for the examples\<close>

text \<open>
  A bucket of objects as an object store: \<open>mockS3 objs\<close> answers from the list of
  \<open>(key, body)\<close> pairs. A listing with a delimiter groups the keys below the prefix by their
  next path segment; a missing key is a 404 fault.
\<close>

fun cut_at :: "jstring \<Rightarrow> jstring \<Rightarrow> jstring option" where
  "cut_at d [] = None"
| "cut_at d (c # cs) =
     (if d \<noteq> [] \<and> take (length d) (c # cs) = d then Some d
      else map_option (\<lambda>r. c # r) (cut_at d cs))"

definition mock_list :: "jstring list \<Rightarrow> jstring \<Rightarrow> jstring option \<Rightarrow> nat option \<Rightarrow> list_output" where
  "mock_list keys p delimiter maxKeys =
     (let ks = filter (\<lambda>k. take (length p) k = p) keys;
          grouped = (case delimiter of
                       None \<Rightarrow> map (\<lambda>k. (k, None)) ks
                     | Some d \<Rightarrow> map (\<lambda>k. (k, cut_at d (drop (length p) k))) ks);
          contents = map fst (filter (\<lambda>(k, g). g = None) grouped);
          contents = (case maxKeys of None \<Rightarrow> contents | Some n \<Rightarrow> take n contents);
          prefixes = remdups (List.map_filter (\<lambda>(k, g). map_option (\<lambda>x. p @ x) g) grouped)
      in \<lparr>Contents = (if contents = [] then None else Some contents),
          CommonPrefixes = (if prefixes = [] then None else Some prefixes)\<rparr>)"

definition mockS3 :: "(jstring \<times> bytes) list \<Rightarrow> s3_client" where
  "mockS3 objs =
     \<lparr>listObjectsV2 = (\<lambda>p d n. Inr (mock_list (map fst objs) p d n)),
      headObject = (\<lambda>k. if k \<in> set (map fst objs) then Inr ()
                         else Inl (S3Fault (js ''NotFound'') (js ''UnknownError'') (Some 404))),
      getObject = (\<lambda>k. case map_of objs k of
                          Some body \<Rightarrow> Inr (Some body)
                        | None \<Rightarrow> Inl (S3Fault (js ''NoSuchKey'') (js ''The specified key does not exist.'') (Some 404)))\<rparr>"

text \<open>
  The ranges of the examples: \<^verbatim>\<open>*\<close> and a plain version such as \<^verbatim>\<open>1.0.0\<close>, which
  \<^verbatim>\<open>validRange\<close> returns as it is and which matches the versions equal to it. Every other
  string is no range for this fixture.
\<close>

definition plain_version :: "jstring \<Rightarrow> semver option" where
  "plain_version r =
     (case semver_parse r of
        Some sv \<Rightarrow> if r \<noteq> [] \<and> is_digit (hd r) \<and> \<not> is_space (last r) \<and> build sv = [] then Some sv else None
      | None \<Rightarrow> None)"

definition exact_ranges :: semver_ranges where
  "exact_ranges =
     \<lparr>valid_range = (\<lambda>r. if r = js ''*'' then Some (js ''*'') else map_option (\<lambda>_. r) (plain_version r)),
      range_test = (\<lambda>r p. map_option (\<lambda>sv v. semver_compare v sv = 0) (plain_version r))\<rparr>"

text \<open>
  Digest tables: the MD5 digests of the device identifiers and the SHA-256 digests of the
  artifact bytes that the examples use.
\<close>

definition md5_table :: md5_fn where
  "md5_table s =
     (if s = js ''device-123'' then 0x6656bcd3d7dd961504da4fdaad797106
      else if s = js ''any-device'' then 0x8a3d8b29463eca1cfbc2115d00151784
      else if s = js ''device-eligible-3'' then 0xc39de4a55c7eadbd60a63afc4bcab1db
      else if s = js ''device-not-eligible-0'' then 0x6b6d8d38523f9f6c38df34b8cf09b70d
      else 0xd41d8cd98f00b204e9800998ecf8427e)"

definition sha256_table :: sha256_fn where
  "sha256_table s =
     (if s = ''app-binary-content'' then 0x50b744fce14122883b4b3cf6cbf015954d5f68a34a55cabc9d14007fd980cab5
      else if s = ''actual-content'' then 0x7ea2838f7b5a53b5ddf54978d93a3ffc5d68d14b257f741151434f69d42c7c5e
      else 0xe3b0c44298fc1c149afbf4c8996fb92427ae41e4649b934ca495991b7852b855)"

text \<open>
  The UTF-8 decoder of the examples: it replaces each ill-formed sequence by U+FFFD, keeps a
  byte order mark, and writes a code point above U+FFFF as a surrogate pair.
\<close>

fun utf8_points :: "int list \<Rightarrow> int list" where
  "utf8_points [] = []"
| "utf8_points (b # bs) =
     (if b < 0x80 then b # utf8_points bs
      else if 0xC2 \<le> b \<and> b \<le> 0xDF then
        (case bs of
           [] \<Rightarrow> [0xFFFD]
         | c # cs \<Rightarrow>
             if 0x80 \<le> c \<and> c \<le> 0xBF then ((b - 0xC0) * 64 + (c - 0x80)) # utf8_points cs
             else 0xFFFD # utf8_points bs)
      else if 0xE0 \<le> b \<and> b \<le> 0xEF then
        (case bs of
           [] \<Rightarrow> [0xFFFD]
         | c # cs \<Rightarrow>
             if (if b = 0xE0 then 0xA0 else 0x80) \<le> c \<and> c \<le> (if b = 0xED then 0x9F else 0xBF) then
               (case cs of
                  [] \<Rightarrow> [0xFFFD]
                | d # ds \<Rightarrow>
                    if 0x80 \<le> d \<and> d \<le> 0xBF
                    then ((b - 0xE0) * 4096 + (c - 0x80) * 64 + (d - 0x80)) # utf8_points ds
                    else 0xFFFD # utf8_points cs)
             else 0xFFFD # utf8_points bs)
      else if 0xF0 \<le> b \<and> b \<le> 0xF4 then
        (case bs of
           [] \<Rightarrow> [0xFFFD]
         | c # cs \<Rightarrow>
             if (if b = 0xF0 then 0x90 else 0x80) \<le> c \<and> c \<le> (if b = 0xF4 then 0x8F else 0xBF) then
               (case cs of
                  [] \<Rightarrow> [0xFFFD]
                | d # ds \<Rightarrow>
                    if 0x80 \<le> d \<and> d \<le> 0xBF then
                      (case ds of
                         [] \<Rightarrow> [0xFFFD]
                       | x # xs \<Rightarrow>
                           if 0x80 \<le> x \<and> x \<le> 0xBF
                           then ((b - 0xF0) * 262144 + (c - 0x80) * 4096 + (d - 0x80) * 64 + (x - 0x80))
                                # utf8_points xs
                           else 0xFFFD # utf8_points ds)
                    else 0xFFFD # utf8_points cs)
             else 0xFFFD # utf8_points bs)
      else 0xFFFD # utf8_points bs)"

definition utf16_units :: "int \<Rightarrow> jstring" where
  "utf16_units cp =
     (if cp < 0x10000 then [word_of_int cp]
      else [word_of_int (0xD800 + (cp - 0x10000) div 1024),
            word_of_int (0xDC00 + (cp - 0x10000) mod 1024)])"

definition utf8_decode :: "bytes \<Rightarrow> jstring" where
  "utf8_decode bs = concat (map utf16_units (utf8_points (map of_char bs)))"

definition test_env :: "(jstring \<times> bytes) list \<Rightarrow> env" where
  "test_env objs =
     \<lparr>s3 = mockS3 objs, baseUrl = js ''https://cdn.test.com'', now = 1700000000000,
      ranges = exact_ranges, md5Digest = md5_table, sha256Digest = sha256_table,
      utf8Decode = utf8_decode, rejectsFirst = First\<rparr>"

text \<open>A bucket with a legacy version and a version with a SKU partition.\<close>

definition sku_bucket :: "(jstring \<times> bytes) list" where
  "sku_bucket =
     [(js ''app/1.0.0/jetkvm_app'', ''legacy''),
      (js ''app/2.0.0/skus/jetkvm-v2/jetkvm_app'', ''v2''),
      (js ''app/2.0.0/jetkvm_app'', ''stray'')]"

text \<open>Rows as the test seed writes them, and two stores with a prerelease row at 100 percent.\<close>

definition seed_row :: "kind \<Rightarrow> jstring \<Rightarrow> int \<Rightarrow> release_row" where
  "seed_row t v p =
     \<lparr>r_version = v, r_type = t, rolloutPercentage = p,
      r_url = js ''https://cdn.test.com/'' @ kind_name t @ js ''/'' @ v @ js ''/'' @
              (case t of App \<Rightarrow> js ''jetkvm_app'' | System \<Rightarrow> js ''system.tar''),
      r_hash = js ''hash-'' @ v\<rparr>"

definition seed_db :: "release_row list" where
  "seed_db = [seed_row App (js ''1.0.0'') 100, seed_row App (js ''1.1.0'') 100, seed_row App (js ''1.2.0'') 10,
              seed_row System (js ''1.0.0'') 100, seed_row System (js ''1.1.0'') 100, seed_row System (js ''1.2.0'') 10]"

definition rc_only_db :: "release_row list" where
  "rc_only_db = [seed_row App (js ''2.0.0-rc.1'') 100, seed_row App (js ''1.0.0'') 50]"

definition rc_mixed_db :: "release_row list" where
  "rc_mixed_db = [seed_row App (js ''1.0.0'') 100, seed_row App (js ''2.0.0-rc.1'') 100]"

text \<open>A store whose greater version is written with a no-break space in front.\<close>

definition padded_db :: "release_row list" where
  "padded_db = [seed_row App (js ''1.0.0'') 100, seed_row App (0x00A0 # js ''2.0.0'') 100]"

text \<open>
  A bucket with three app versions and a folder that is no version, in the legacy layout; a
  bucket with folders that are no versions; and the bucket as it was when 1.0.0 was the
  only app version.
\<close>

definition listing_bucket :: "(jstring \<times> bytes) list" where
  "listing_bucket =
     [(js ''app/1.0.0/jetkvm_app'', ''app-100''), (js ''app/1.0.0/jetkvm_app.sha256'', ''hash-app-100''),
      (js ''app/1.1.0/jetkvm_app'', ''app-110''), (js ''app/1.1.0/jetkvm_app.sha256'', ''hash-app-110''),
      (js ''app/2.0.0-beta.1/jetkvm_app'', ''app-200b1''),
      (js ''app/2.0.0-beta.1/jetkvm_app.sha256'', ''hash-app-200b1''),
      (js ''app/not-semver/readme'', ''text''),
      (js ''system/1.0.0/system.tar'', ''sys-100''), (js ''system/1.0.0/system.tar.sha256'', ''hash-sys-100''),
      (js ''system/1.1.0/system.tar'', ''sys-110''), (js ''system/1.1.0/system.tar.sha256'', ''hash-sys-110'')]"

definition junk_bucket :: "(jstring \<times> bytes) list" where
  "junk_bucket = [(js ''app/not-semver/readme'', ''text''), (js ''app/invalid-version/readme'', ''text'')]"

definition early_bucket :: "(jstring \<times> bytes) list" where
  "early_bucket =
     [(js ''app/1.0.0/jetkvm_app'', ''app-100''), (js ''app/1.0.0/jetkvm_app.sha256'', ''hash-app-100'')]"

text \<open>
  Two buckets for the redirect endpoint of the app: one whose digest file matches the
  artifact, one whose artifact was replaced after the digest file was written.
\<close>

definition verified_bucket :: "(jstring \<times> bytes) list" where
  "verified_bucket =
     [(js ''app/1.2.0/jetkvm_app'', ''app-binary-content''),
      (js ''app/1.2.0/jetkvm_app.sha256'',
       ''50b744fce14122883b4b3cf6cbf015954d5f68a34a55cabc9d14007fd980cab5'' @ [CHR 0x0A])]"

definition tampered_bucket :: "(jstring \<times> bytes) list" where
  "tampered_bucket =
     [(js ''app/1.2.0/jetkvm_app'', ''actual-content''),
      (js ''app/1.2.0/jetkvm_app.sha256'',
       ''50b744fce14122883b4b3cf6cbf015954d5f68a34a55cabc9d14007fd980cab5'' @ [CHR 0x0A])]"

text \<open>
  A bucket whose digest file starts with a byte order mark, a bucket that has an app artifact
  without digest file and no system version, and a bucket whose two prerelease tags differ
  only beyond the precision of a number.
\<close>

definition bom_bucket :: "(jstring \<times> bytes) list" where
  "bom_bucket =
     [(js ''app/1.2.0/jetkvm_app'', ''app-binary-content''),
      (js ''app/1.2.0/jetkvm_app.sha256'',
       [CHR 0xEF, CHR 0xBB, CHR 0xBF] @
       ''50b744fce14122883b4b3cf6cbf015954d5f68a34a55cabc9d14007fd980cab5'' @ [CHR 0x0A])]"

definition partial_bucket :: "(jstring \<times> bytes) list" where
  "partial_bucket = [(js ''app/1.0.0/jetkvm_app'', ''app-100'')]"

definition big_tag_bucket :: "(jstring \<times> bytes) list" where
  "big_tag_bucket =
     [(js ''app/1.0.0-9007199254740992/jetkvm_app'', ''app-a''),
      (js ''app/1.0.0-9007199254740992/jetkvm_app.sha256'', ''hash-a''),
      (js ''app/1.0.0-9007199254740993/jetkvm_app'', ''app-b''),
      (js ''app/1.0.0-9007199254740993/jetkvm_app.sha256'', ''hash-b'')]"

definition empty_state :: state where
  "empty_state = \<lparr>releaseCache = Map.empty, redirectCache = Map.empty, releases = []\<rparr>"

declare bit_length.simps [simp del]

section \<open>Properties of string literals\<close>

lemma unat_ch: "unat (ch c) = of_char c"
proof -
  have "(of_char c :: 16 word) = of_nat (of_char c)"
    by (simp only: of_nat_of_char)
  moreover have "(of_char c :: nat) < 2 ^ LENGTH(16)"
    using nat_of_char_less_256 [of c] by (simp add: order_less_trans [of _ 256])
  ultimately show ?thesis
    by (simp add: ch_def unsigned_of_nat take_bit_nat_eq_self)
qed

lemma ch_eq_iff [simp]: "ch a = ch b \<longleftrightarrow> a = b"
proof
  assume "ch a = ch b"
  then have "unat (ch a) = unat (ch b)" by simp
  then have "(of_char a :: nat) = of_char b" by (simp only: unat_ch)
  then show "a = b" by (simp only: of_char_eq_iff)
qed simp

lemma js_eq_iff [simp]: "js a = js b \<longleftrightarrow> a = b"
  unfolding js_def by (rule inj_map_eq_map) (simp add: inj_def)

lemma js_eq_Nil [simp]: "js a = [] \<longleftrightarrow> a = []" "[] = js a \<longleftrightarrow> a = []"
  by (auto simp: js_def)

lemma js_append [simp]: "js a @ js b = js (a @ b)" "js a @ js b @ xs = js (a @ b) @ xs"
  by (simp_all add: js_def)

section \<open>Properties of the rollout bucket\<close>

lemma hex_alphabet_is_hex: "\<forall>c \<in> set (js ''0123456789abcdef''). is_hex c \<and> \<not> is_space c \<and> c \<noteq> ch CHR ''-'' \<and> c \<noteq> ch CHR ''+'' \<and> c \<noteq> ch CHR ''x'' \<and> c \<noteq> ch CHR ''X''"
  by code_simp

lemma hex_digit_alphabet: "hex_digit n \<in> set (js ''0123456789abcdef'')"
  unfolding hex_digit_def by (rule nth_mem) (simp add: js_def)

lemma digest_hex_alphabet: "set (digest_hex w) \<subseteq> set (js ''0123456789abcdef'')"
  unfolding digest_hex_def using hex_digit_alphabet by auto

lemma length_digest_hex: "length (digest_hex (w :: 'a::len word)) = LENGTH('a) div 4"
  by (simp add: digest_hex_def)

lemma hex_number_nonneg_aux: "0 \<le> acc \<Longrightarrow> 0 \<le> foldl (\<lambda>acc c. 16 * acc + (case hex_value c of Some v \<Rightarrow> v | None \<Rightarrow> 0)) acc ds"
proof (induction ds arbitrary: acc)
  case Nil
  then show ?case by simp
next
  case (Cons c ds)
  have "0 \<le> (case hex_value c of Some v \<Rightarrow> v | None \<Rightarrow> 0)"
    by (auto simp: hex_value_def Let_def split: option.splits if_splits)
  with Cons.prems have "0 \<le> 16 * acc + (case hex_value c of Some v \<Rightarrow> v | None \<Rightarrow> 0)"
    by simp
  from Cons.IH [OF this] show ?case by simp
qed

lemma hex_number_nonneg: "0 \<le> hex_number ds"
  unfolding hex_number_def by (rule hex_number_nonneg_aux) simp

lemma parseInt16_hex_text:
  assumes "ds \<noteq> []" and "set ds \<subseteq> set (js ''0123456789abcdef'')"
  shows "parseInt16 ds = Some (hex_number ds)"
proof -
  from assms obtain c cs where ds: "ds = c # cs" by (cases ds) auto
  have all: "\<forall>x \<in> set ds. is_hex x \<and> \<not> is_space x \<and> x \<noteq> ch CHR ''-'' \<and> x \<noteq> ch CHR ''+'' \<and> x \<noteq> ch CHR ''x'' \<and> x \<noteq> ch CHR ''X''"
    using assms(2) hex_alphabet_is_hex by blast
  have t: "trimStart ds = ds"
    using all ds by (simp add: trimStart_def)
  have s: "strip_sign ds = (1, ds)"
    using all ds by (simp add: strip_sign_def)
  have x: "strip_0x ds = ds"
    using all ds by (cases cs) (simp_all add: strip_0x_def)
  have w: "takeWhile is_hex ds = ds"
    using all by simp
  show ?thesis
    using assms(1) by (simp add: parseInt16_def t s x w)
qed

lemma bucket_value:
  "getDeviceRolloutBucket md5 d = Some (hex_number (take 8 (digest_hex (md5 d))) mod 100)"
proof -
  let ?p = "take 8 (digest_hex (md5 d))"
  have "length ?p = 8" by (simp add: length_digest_hex)
  then have ne: "?p \<noteq> []" by auto
  have "set ?p \<subseteq> set (js ''0123456789abcdef'')"
    using digest_hex_alphabet [of "md5 d"] set_take_subset [of 8 "digest_hex (md5 d)"] by blast
  from parseInt16_hex_text [OF ne this] hex_number_nonneg [of ?p]
  show ?thesis by (simp add: getDeviceRolloutBucket_def js_rem_def)
qed

lemma getDeviceRolloutBucket_value_range:
  "\<exists>b. getDeviceRolloutBucket md5 d = Some b \<and> 0 \<le> b \<and> b < 100"
  by (simp add: bucket_value)

text \<open>The eight digits are the 32 most significant bits of the digest.\<close>

lemma nibble_value: "unat (drop_bit k w AND 15) = (unat w div 2 ^ k) mod 16"
proof -
  have "(15 :: 'a::len word) = mask 4" by (simp add: mask_eq_exp_minus_1)
  then have "drop_bit k w AND 15 = take_bit 4 (drop_bit k w)"
    by (simp only: take_bit_eq_mask)
  then have "unat (drop_bit k w AND 15) = unat (take_bit 4 (drop_bit k w))"
    by (rule arg_cong)
  also have "\<dots> = take_bit 4 (unat (drop_bit k w))"
    by (simp only: unsigned_take_bit_eq)
  also have "\<dots> = take_bit 4 (drop_bit k (unat w))"
    by (simp only: unat_drop_bit_eq)
  also have "\<dots> = (unat w div 2 ^ k) mod 16"
    by (simp add: take_bit_eq_mod drop_bit_eq_div)
  finally show ?thesis .
qed

lemma hex_value_alphabet: "map hex_value (js ''0123456789abcdef'') = map (\<lambda>k. Some (int k)) [0..<16]"
  by code_simp

lemma hex_value_hex_digit: "hex_value (hex_digit n) = Some (int (n mod 16))"
proof -
  have k: "n mod 16 < 16" by simp
  have "hex_value (hex_digit n) = map hex_value (js ''0123456789abcdef'') ! (n mod 16)"
    unfolding hex_digit_def by (rule nth_map [symmetric]) (simp add: js_def)
  also have "\<dots> = map (\<lambda>k. Some (int k)) [0..<16] ! (n mod 16)"
    by (simp only: hex_value_alphabet)
  also have "\<dots> = Some (int (n mod 16))"
    using k by (simp only: nth_map length_upt nth_upt) simp
  finally show ?thesis .
qed

lemma top_nibbles: "rev [0..<32::nat] = [31, 30, 29, 28, 27, 26, 25, 24] @ rev [0..<24]"
proof -
  have "[0..<32::nat] = [0..<24] @ [24..<32]"
    using upt_add_eq_append [of 0 24 8] by simp
  moreover have "[24..<32::nat] = [24, 25, 26, 27, 28, 29, 30, 31]"
    by code_simp
  ultimately show ?thesis by simp
qed

lemma take8: "take 8 (digest_hex (w :: 128 word)) =
   map (\<lambda>i. hex_digit (unat (drop_bit (4 * i) w AND 15))) [31, 30, 29, 28, 27, 26, 25, 24]"
  by (simp add: digest_hex_def top_nibbles)

lemma digit_step: "(v::nat) div k = 16 * (v div (16 * k)) + (v div k) mod 16"
  by (simp add: div_mult2_eq mult.commute)

lemma digits8:
  fixes v :: nat
  assumes "v < 4294967296"
  shows "((((((((v div 268435456) mod 16) * 16 + (v div 16777216) mod 16) * 16 + (v div 1048576) mod 16) * 16
           + (v div 65536) mod 16) * 16 + (v div 4096) mod 16) * 16 + (v div 256) mod 16) * 16
           + (v div 16) mod 16) * 16 + v mod 16 = v"
proof -
  have h7: "(v div 268435456) mod 16 = v div 268435456"
    using assms by simp
  have h6: "v div 268435456 * 16 + (v div 16777216) mod 16 = v div 16777216"
    using digit_step [of v 16777216] by simp
  have h5: "v div 16777216 * 16 + (v div 1048576) mod 16 = v div 1048576"
    using digit_step [of v 1048576] by simp
  have h4: "v div 1048576 * 16 + (v div 65536) mod 16 = v div 65536"
    using digit_step [of v 65536] by simp
  have h3: "v div 65536 * 16 + (v div 4096) mod 16 = v div 4096"
    using digit_step [of v 4096] by simp
  have h2: "v div 4096 * 16 + (v div 256) mod 16 = v div 256"
    using digit_step [of v 256] by simp
  have h1: "v div 256 * 16 + (v div 16) mod 16 = v div 16"
    using digit_step [of v 16] by simp
  have h0: "v div 16 * 16 + v mod 16 = v"
    by simp
  show ?thesis
    unfolding h7 h6 h5 h4 h3 h2 h1 h0 ..
qed

lemma top_word_value:
  "hex_number (take 8 (digest_hex (w :: 128 word))) = int (unat (drop_bit 96 w))"
proof -
  define u where "u = unat w"
  define v where "v = u div 2 ^ 96"
  have "u < 2 ^ 128"
    unfolding u_def using unsigned_less [of w, where ?'a = nat] by simp
  then have v: "v < 4294967296"
    unfolding v_def by (simp add: less_mult_imp_div_less)
  have n: "\<And>k. unat (drop_bit (96 + k) w AND 15) = (v div 2 ^ k) mod 16"
    unfolding nibble_value v_def u_def by (simp add: power_add div_mult2_eq)
  have d: "hex_number (take 8 (digest_hex w)) =
      int (((((((((v div 268435456) mod 16) * 16 + (v div 16777216) mod 16) * 16 + (v div 1048576) mod 16) * 16
           + (v div 65536) mod 16) * 16 + (v div 4096) mod 16) * 16 + (v div 256) mod 16) * 16
           + (v div 16) mod 16) * 16 + v mod 16)"
    using n [of 28] n [of 24] n [of 20] n [of 16] n [of 12] n [of 8] n [of 4] n [of 0]
    by (simp add: take8 hex_number_def hex_value_hex_digit)
  have "unat (drop_bit 96 w) = drop_bit 96 (unat w)"
    by (simp only: unat_drop_bit_eq)
  then have t: "unat (drop_bit 96 w) = v"
    unfolding v_def u_def by (simp only: drop_bit_eq_div)
  from d have "hex_number (take 8 (digest_hex w)) = int v"
    unfolding digits8 [OF v] .
  then show ?thesis
    unfolding t .
qed

lemma bucket_formula:
  "getDeviceRolloutBucket md5 d = Some (int (unat (drop_bit 96 (md5 d))) mod 100)"
  by (simp add: bucket_value top_word_value)



text \<open>Every value in \<open>[0, 100)\<close> is the bucket of some digest.\<close>

lemma every_bucket_attained:
  assumes "0 \<le> b" and "b < 100"
  shows "getDeviceRolloutBucket (\<lambda>_. push_bit 96 (word_of_int b)) d = Some b"
proof -
  let ?w = "push_bit 96 (word_of_int b) :: 128 word"
  have "drop_bit 96 ?w = take_bit 32 (word_of_int b)"
    by (rule bit_word_eqI) (auto simp: bit_simps)
  then have "unat (drop_bit 96 ?w) = take_bit 32 (unat (word_of_int b :: 128 word))"
    by (simp only: unsigned_take_bit_eq)
  also have "unat (word_of_int b :: 128 word) = nat b"
    using assms by (simp add: unat_eq_nat_uint uint_word_of_int take_bit_int_eq_self)
  also have "take_bit 32 (nat b) = nat b"
    using assms by (simp add: take_bit_nat_eq_self)
  finally have "int (unat (drop_bit 96 ?w)) = b"
    using assms by simp
  then show ?thesis
    using assms by (simp only: bucket_formula) simp
qed

section \<open>Properties of the version order\<close>

lemma cmp_le0: "cmp a b \<le> 0 \<longleftrightarrow> a \<le> b"
  by (auto simp: cmp_def)

lemma cmp_neg: "cmp a b = -1 \<longleftrightarrow> a < b"
  by (auto simp: cmp_def)

lemma cmp_eq0: "cmp a b = 0 \<longleftrightarrow> a = b"
  by (auto simp: cmp_def)

lemma cmp_flip: "cmp b a = - cmp a b"
  by (auto simp: cmp_def)

text \<open>
  A number below \<open>2 ^ 53\<close> is exact; from there on only every second integer is a number,
  then every fourth, and so on, and an integer half way between two numbers goes to the one
  with the even significand.
\<close>

lemma toNumber_exact: "n < 2 ^ 53 \<Longrightarrow> toNumber n = n"
  by (simp add: toNumber_def)

lemma toNumber_rounds:
  "toNumber 9007199254740992 = 9007199254740992"
  "toNumber 9007199254740993 = 9007199254740992"
  "toNumber 9007199254740994 = 9007199254740994"
  "toNumber 9007199254740995 = 9007199254740996"
  "toNumber 123456789012345678901234567890 = 123456789012345677877719597056"
  by code_simp+

lemma compareIdentifiers_key: "compareIdentifiers a b = cmp (pre_key a) (pre_key b)"
  by (cases a; cases b) (auto simp: pre_key_def cmp_def)

lemma compareMain_key: "compareMain a b = cmp (main_key a) (main_key b)"
  by (auto simp: compareMain_def main_key_def cmp_def)

text \<open>
  The comparison is antisymmetric in its sign. It is not transitive (two numeric tags from
  \<open>2 ^ 53\<close> on can tie at one position and hide a difference at a later one), but a version
  that does not exceed \<open>b\<close> does not exceed a version that \<open>b\<close> is less than; this is what
  the selection of a maximum needs.
\<close>

lemma compare_ids_flip: "compare_ids bs as = - compare_ids as bs"
proof (induction as bs rule: compare_ids.induct)
  case (4 a as b bs)
  then show ?case
    using cmp_flip [of "pre_key b" "pre_key a"] by (auto simp: compareIdentifiers_key)
qed simp_all

lemma compare_ids_step:
  "compare_ids x y \<le> 0 \<Longrightarrow> compare_ids y z = -1 \<Longrightarrow> compare_ids x z \<le> 0"
proof (induction x y arbitrary: z rule: compare_ids.induct)
  case 1
  then show ?case by (cases z) simp_all
next
  case (2 a as)
  then show ?case by simp
next
  case (3 b bs)
  then show ?case by (cases z) simp_all
next
  case (4 a as b bs)
  from 4(3) obtain c cs where z: "z = c # cs" by (cases z) simp_all
  show ?case
  proof (cases "a = b")
    case ab: True
    show ?thesis
    proof (cases "b = c")
      case True
      with 4 ab z show ?thesis by simp
    next
      case False
      with 4(3) ab z show ?thesis by simp
    qed
  next
    case ab: False
    with 4(2) have le: "pre_key a \<le> pre_key b"
      by (simp add: compareIdentifiers_key cmp_le0)
    show ?thesis
    proof (cases "b = c")
      case True
      with 4(2) ab z show ?thesis by simp
    next
      case False
      with 4(3) z have "pre_key b < pre_key c"
        by (simp add: compareIdentifiers_key cmp_neg)
      with le have lt: "pre_key a < pre_key c" by simp
      then have "a \<noteq> c" by auto
      with lt z show ?thesis
        by (simp add: compareIdentifiers_key cmp_def)
    qed
  qed
qed

lemma compare_ids_refl: "compare_ids as as = 0"
  by (induction as) simp_all

lemma comparePre_flip: "comparePre b a = - comparePre a b"
  using compare_ids_flip [of "prerelease b" "prerelease a"] by (simp add: comparePre_def)

lemma comparePre_step:
  "comparePre a b \<le> 0 \<Longrightarrow> comparePre b c = -1 \<Longrightarrow> comparePre a c \<le> 0"
  using compare_ids_step [of "prerelease a" "prerelease b" "prerelease c"]
  by (auto simp: comparePre_def split: if_splits)

lemma semver_compare_flip: "semver_compare b a = - semver_compare a b"
  using cmp_flip [of "main_key b" "main_key a"] comparePre_flip [of b a]
  by (simp add: semver_compare_def compareMain_key)

lemma semver_compare_range: "semver_compare a b = -1 \<or> semver_compare a b = 0 \<or> semver_compare a b = 1"
proof -
  have "compare_ids as bs = -1 \<or> compare_ids as bs = 0 \<or> compare_ids as bs = 1" for as bs
    by (induction as bs rule: compare_ids.induct) (auto simp: compareIdentifiers_key cmp_def)
  from this [of "prerelease a" "prerelease b"] show ?thesis
    by (auto simp: semver_compare_def compareMain_key comparePre_def cmp_def)
qed

lemma semver_compare_step:
  assumes "semver_compare a b \<le> 0" and "semver_compare b c = -1"
  shows "semver_compare a c \<le> 0"
proof -
  from assms(1) consider (lt) "main_key a < main_key b"
    | (eq) "main_key a = main_key b" "comparePre a b \<le> 0"
    by (auto simp: semver_compare_def compareMain_key cmp_def split: if_splits)
  then show ?thesis
  proof cases
    case lt
    from assms(2) have "main_key b \<le> main_key c"
      by (auto simp: semver_compare_def compareMain_key cmp_def split: if_splits)
    with lt have "main_key a < main_key c" by simp
    then show ?thesis
      by (auto simp: semver_compare_def compareMain_key cmp_def)
  next
    case eq
    from assms(2) consider (lt') "main_key b < main_key c"
      | (eq') "main_key b = main_key c" "comparePre b c = -1"
      by (auto simp: semver_compare_def compareMain_key cmp_def split: if_splits)
    then show ?thesis
    proof cases
      case lt'
      with eq show ?thesis
        by (auto simp: semver_compare_def compareMain_key cmp_def)
    next
      case eq'
      with eq comparePre_step [of a b c] show ?thesis
        by (simp add: semver_compare_def compareMain_key cmp_def)
    qed
  qed
qed

lemma semver_compare_total: "semver_compare a b \<noteq> -1 \<Longrightarrow> semver_compare b a \<le> 0"
  using semver_compare_range [of a b] semver_compare_flip [of b a] by auto

lemma semver_compare_refl: "semver_compare a a = 0"
  by (simp add: semver_compare_def compareMain_key comparePre_def cmp_def compare_ids_refl)

lemma version_le_step: "version_le a b \<Longrightarrow> version_lt b c \<Longrightarrow> version_le a c"
  unfolding version_le_def version_lt_def
  by (auto split: option.splits intro: semver_compare_step)

lemma Range_test_parses: "Range_test t v \<Longrightarrow> \<exists>sv. semver_parse v = Some sv \<and> t sv"
  by (auto simp: Range_test_def split: option.splits)

lemma version_le_refl: "Range_test t v \<Longrightarrow> version_le v v"
  by (auto simp: version_le_def semver_compare_refl dest: Range_test_parses)

lemma maxSatisfying_step_cases:
  assumes "Range_test t v" and "Range_test t a"
  shows "(maxSatisfying_step t v (Some a) = Some v \<and> version_lt a v)
       \<or> (maxSatisfying_step t v (Some a) = Some a \<and> version_le v a)"
proof -
  from assms obtain sv msv where p: "semver_parse v = Some sv" "semver_parse a = Some msv"
    by (auto dest!: Range_test_parses)
  show ?thesis
  proof (cases "semver_compare msv sv = -1")
    case True
    with assms p show ?thesis by (simp add: maxSatisfying_step_def version_lt_def)
  next
    case False
    from semver_compare_total [OF this] assms p False show ?thesis
      by (simp add: maxSatisfying_step_def version_le_def)
  qed
qed

lemma fold_maxSatisfying_step:
  assumes "acc = None \<or> (\<exists>m. acc = Some m \<and> Range_test t m)"
  shows "(case fold (maxSatisfying_step t) vs acc of
            None \<Rightarrow> acc = None \<and> (\<forall>v\<in>set vs. \<not> Range_test t v)
          | Some m \<Rightarrow> Range_test t m \<and> (acc = Some m \<or> m \<in> set vs)
                      \<and> (\<forall>v\<in>set vs. Range_test t v \<longrightarrow> version_le v m)
                      \<and> (\<forall>a u. acc = Some a \<longrightarrow> version_le u a \<longrightarrow> version_le u m))"
  using assms
proof (induction vs arbitrary: acc)
  case Nil
  then show ?case by (auto split: option.splits)
next
  case (Cons v vs)
  let ?acc' = "maxSatisfying_step t v acc"
  show ?case
  proof (cases "Range_test t v")
    case False
    then have "?acc' = acc" by (simp add: maxSatisfying_step_def)
    with Cons.IH [OF Cons.prems] False show ?thesis
      by (auto split: option.splits)
  next
    case True
    note vv = version_le_refl [OF True]
    show ?thesis
    proof (cases acc)
      case None
      with True have a: "?acc' = Some v" by (simp add: maxSatisfying_step_def)
      have "?acc' = None \<or> (\<exists>m. ?acc' = Some m \<and> Range_test t m)" using a True by simp
      from Cons.IH [OF this] a None vv show ?thesis
        by (auto split: option.splits)
    next
      case (Some a)
      with Cons.prems have ta: "Range_test t a" by simp
      from maxSatisfying_step_cases [OF True ta]
      consider (new) "?acc' = Some v" "version_lt a v" | (old) "?acc' = Some a" "version_le v a"
        using Some by auto
      then show ?thesis
      proof cases
        case new
        have "?acc' = None \<or> (\<exists>m. ?acc' = Some m \<and> Range_test t m)" using new True by simp
        from Cons.IH [OF this] new Some vv show ?thesis
          by (auto split: option.splits dest: version_le_step)
      next
        case old
        have "?acc' = None \<or> (\<exists>m. ?acc' = Some m \<and> Range_test t m)" using old ta by simp
        from Cons.IH [OF this] old Some show ?thesis
          by (auto split: option.splits)
      qed
    qed
  qed
qed

lemma maxSatisfying_None:
  assumes "Range_new lib rng p = Some t"
  shows "maxSatisfying lib vs rng p = None \<longleftrightarrow> (\<forall>v\<in>set vs. \<not> Range_test t v)"
  using fold_maxSatisfying_step [of None t vs] assms
  by (auto simp: maxSatisfying_def split: option.splits)

lemma maxSatisfying_Some:
  assumes "Range_new lib rng p = Some t" and "maxSatisfying lib vs rng p = Some m"
  shows "m \<in> set vs \<and> Range_test t m \<and> (\<forall>v\<in>set vs. Range_test t v \<longrightarrow> version_le v m)"
  using fold_maxSatisfying_step [of None t vs] assms
  by (auto simp: maxSatisfying_def split: option.splits)

section \<open>The rollout bucket and eligibility\<close>

text \<open>
  C3. For every device identifier, \<^verbatim>\<open>getDeviceRolloutBucket\<close> returns an integer in
  \<open>[0, 100)\<close> (never \<^verbatim>\<open>NaN\<close>): the 32 most significant bits of the MD5 digest of the
  identifier, read as an unsigned number, modulo 100. The value is determined by the digest
  alone: two calls that hash to the same digest, in particular two calls with the same
  identifier, return the same bucket. The function has no other input.
\<close>

theorem getDeviceRolloutBucket_range:
  "(\<exists>b. getDeviceRolloutBucket md5 d = Some b \<and> 0 \<le> b \<and> b < 100) \<and>
   getDeviceRolloutBucket md5 d = Some (int (unat (drop_bit 96 (md5 d))) mod 100) \<and>
   (\<forall>md5' d'. md5' d' = md5 d \<longrightarrow> getDeviceRolloutBucket md5' d' = getDeviceRolloutBucket md5 d)"
proof (intro conjI)
  show "\<exists>b. getDeviceRolloutBucket md5 d = Some b \<and> 0 \<le> b \<and> b < 100"
    by (simp add: bucket_value)
  show "getDeviceRolloutBucket md5 d = Some (int (unat (drop_bit 96 (md5 d))) mod 100)"
    by (rule bucket_formula)
  show "\<forall>md5' d'. md5' d' = md5 d \<longrightarrow> getDeviceRolloutBucket md5' d' = getDeviceRolloutBucket md5 d"
    by (simp add: getDeviceRolloutBucket_def)
qed

theorem getDeviceRolloutBucket_range_witness:
  "md5_table (js ''device-123'') = md5_table (js ''device-123'') \<and>
   getDeviceRolloutBucket md5_table (js ''device-123'') = Some 67 \<and>
   (\<exists>b. getDeviceRolloutBucket md5_table (js ''device-123'') = Some b \<and> 0 \<le> b \<and> b < 100)"
proof -
  have v: "getDeviceRolloutBucket md5_table (js ''device-123'') = Some 67"
    by code_simp
  from getDeviceRolloutBucket_range [of md5_table "js ''device-123''"] v show ?thesis
    by simp
qed

text \<open>
  C4. Let \<open>b\<close> be the bucket of a device; it lies in \<open>[0, 100)\<close>, and every value in that
  range is the bucket of some digest. The device is eligible at a rollout percentage of 100
  whatever \<open>b\<close> is, and at any other percentage \<open>p\<close> exactly when \<open>b < p\<close>. Hence eligibility
  is monotone in the percentage, and no device is eligible at 0.
\<close>

theorem isDeviceEligibleForLatestRelease_monotone:
  "(\<exists>b. getDeviceRolloutBucket md5 d = Some b \<and> 0 \<le> b \<and> b < 100 \<and>
     isDeviceEligibleForLatestRelease md5 100 d \<and>
     (\<forall>p. p \<noteq> 100 \<longrightarrow> (isDeviceEligibleForLatestRelease md5 p d \<longleftrightarrow> b < p)) \<and>
     (\<forall>p q. p \<le> q \<longrightarrow> isDeviceEligibleForLatestRelease md5 p d \<longrightarrow>
              isDeviceEligibleForLatestRelease md5 q d) \<and>
     \<not> isDeviceEligibleForLatestRelease md5 0 d) \<and>
   (\<forall>b'. 0 \<le> b' \<and> b' < 100 \<longrightarrow> (\<exists>md5' d'. getDeviceRolloutBucket md5' d' = Some b'))"
proof
  from getDeviceRolloutBucket_value_range [of md5 d]
  obtain b where b: "getDeviceRolloutBucket md5 d = Some b" "0 \<le> b" "b < 100"
    by blast
  have e: "\<And>p. isDeviceEligibleForLatestRelease md5 p d \<longleftrightarrow> p = 100 \<or> b < p"
    using b by (simp add: isDeviceEligibleForLatestRelease_def)
  show "\<exists>b. getDeviceRolloutBucket md5 d = Some b \<and> 0 \<le> b \<and> b < 100 \<and>
     isDeviceEligibleForLatestRelease md5 100 d \<and>
     (\<forall>p. p \<noteq> 100 \<longrightarrow> (isDeviceEligibleForLatestRelease md5 p d \<longleftrightarrow> b < p)) \<and>
     (\<forall>p q. p \<le> q \<longrightarrow> isDeviceEligibleForLatestRelease md5 p d \<longrightarrow>
              isDeviceEligibleForLatestRelease md5 q d) \<and>
     \<not> isDeviceEligibleForLatestRelease md5 0 d"
    using b unfolding e by auto
  show "\<forall>b'. 0 \<le> b' \<and> b' < 100 \<longrightarrow> (\<exists>md5' d'. getDeviceRolloutBucket md5' d' = Some b')"
    using every_bucket_attained by blast
qed

theorem isDeviceEligibleForLatestRelease_monotone_witness:
  "getDeviceRolloutBucket md5_table (js ''device-eligible-3'') = Some 5 \<and>
   (10::int) \<noteq> 100 \<and> (10::int) \<le> 50 \<and>
   isDeviceEligibleForLatestRelease md5_table 10 (js ''device-eligible-3'') \<and>
   isDeviceEligibleForLatestRelease md5_table 50 (js ''device-eligible-3'') \<and>
   \<not> isDeviceEligibleForLatestRelease md5_table 5 (js ''device-eligible-3'') \<and>
   isDeviceEligibleForLatestRelease md5_table 100 (js ''device-eligible-3'') \<and>
   \<not> isDeviceEligibleForLatestRelease md5_table 0 (js ''device-eligible-3'') \<and>
   getDeviceRolloutBucket md5_table (js ''device-not-eligible-0'') = Some 88 \<and>
   \<not> isDeviceEligibleForLatestRelease md5_table 10 (js ''device-not-eligible-0'') \<and>
   isDeviceEligibleForLatestRelease md5_table 100 (js ''device-not-eligible-0'')"
proof -
  have v: "getDeviceRolloutBucket md5_table (js ''device-eligible-3'') = Some 5"
    by code_simp
  have u: "getDeviceRolloutBucket md5_table (js ''device-not-eligible-0'') = Some 88"
    by code_simp
  from isDeviceEligibleForLatestRelease_monotone [of md5_table "js ''device-eligible-3''"]
       isDeviceEligibleForLatestRelease_monotone [of md5_table "js ''device-not-eligible-0''"] v u
  show ?thesis by auto
qed

section \<open>Range normalization\<close>

text \<open>
  C9. \<^verbatim>\<open>toSemverRange\<close> yields \<^verbatim>\<open>"*"\<close> for an absent or empty range and for a string that
  \<^verbatim>\<open>validRange\<close> rejects, and yields the range that \<^verbatim>\<open>validRange\<close> returns for a string it
  accepts. The function is total: its result is a string for every input and every
  behaviour of \<^verbatim>\<open>validRange\<close>, so no input raises.
\<close>

theorem toSemverRange_total:
  "toSemverRange lib None = js ''*'' \<and> toSemverRange lib (Some []) = js ''*'' \<and>
   (valid_range lib r = None \<longrightarrow> toSemverRange lib (Some r) = js ''*'') \<and>
   (r \<noteq> [] \<and> valid_range lib r = Some n \<and> n \<noteq> [] \<longrightarrow> toSemverRange lib (Some r) = n) \<and>
   (\<exists>s. toSemverRange lib x = s \<and> s \<noteq> [] \<and>
        (s = js ''*'' \<or> (\<exists>r'. x = Some r' \<and> valid_range lib r' = Some s)))"
  by (auto simp: toSemverRange_def split: option.splits)

theorem toSemverRange_total_witness:
  "valid_range exact_ranges (js ''not a range'') = None \<and>
   toSemverRange exact_ranges (Some (js ''not a range'')) = js ''*'' \<and>
   js ''1.0.0'' \<noteq> [] \<and> valid_range exact_ranges (js ''1.0.0'') = Some (js ''1.0.0'') \<and>
   toSemverRange exact_ranges (Some (js ''1.0.0'')) = js ''1.0.0'' \<and>
   toSemverRange exact_ranges None = js ''*''"
proof -
  have a: "valid_range exact_ranges (js ''not a range'') = None"
    by code_simp
  have b: "valid_range exact_ranges (js ''1.0.0'') = Some (js ''1.0.0'')"
    by code_simp
  from toSemverRange_total [of exact_ranges "js ''not a range''" "js ''*''" None]
       toSemverRange_total [of exact_ranges "js ''1.0.0''" "js ''1.0.0''" None] a b
  show ?thesis by simp
qed

section \<open>Artifact paths\<close>

text \<open>
  C1. When the version has no SKU partition (the listing below \<^verbatim>\<open>skus/\<close> is empty),
  \<^verbatim>\<open>resolveArtifactPath\<close> fails with the not-found error "predates SKU support" for every
  SKU other than the default one. When the version has a SKU partition and the artifact of
  the requested SKU is not in it, it fails with the not-found error "is not available".
  Whenever it does return a path, the path is the requested SKU's own artifact in the
  partition, or the legacy path for the default SKU on a version without partition: no
  other SKU's path and no fallback from a partitioned version to the legacy path.
\<close>

theorem resolveArtifactPath_no_fallback:
  "(versionHasSkuSupport s3c prefix v = Inr False \<and> sku \<noteq> DEFAULT_SKU \<longrightarrow>
      resolveArtifactPath s3c prefix v sku ovr =
        Inl (NotFoundError (js ''Version '' @ v @ js '' predates SKU support and cannot serve SKU ''
                            @ dquote @ sku @ dquote))) \<and>
   (versionHasSkuSupport s3c prefix v = Inr True \<and>
    s3ObjectExists s3c (kind_name prefix @ js ''/'' @ v @ js ''/skus/'' @ sku @ js ''/'' @
        (case ovr of Some a \<Rightarrow> a | None \<Rightarrow> (case prefix of App \<Rightarrow> js ''jetkvm_app'' | System \<Rightarrow> js ''system.tar'')))
      = Inr False \<longrightarrow>
      resolveArtifactPath s3c prefix v sku ovr =
        Inl (NotFoundError (js ''SKU '' @ dquote @ sku @ dquote @ js '' is not available for version '' @ v))) \<and>
   (\<forall>p. resolveArtifactPath s3c prefix v sku ovr = Inr p \<longrightarrow>
      (versionHasSkuSupport s3c prefix v = Inr True \<and> s3ObjectExists s3c p = Inr True \<and>
       p = kind_name prefix @ js ''/'' @ v @ js ''/skus/'' @ sku @ js ''/'' @
           (case ovr of Some a \<Rightarrow> a | None \<Rightarrow> (case prefix of App \<Rightarrow> js ''jetkvm_app'' | System \<Rightarrow> js ''system.tar'')))
      \<or>
      (versionHasSkuSupport s3c prefix v = Inr False \<and> sku = DEFAULT_SKU \<and>
       p = kind_name prefix @ js ''/'' @ v @ js ''/'' @
           (case ovr of Some a \<Rightarrow> a | None \<Rightarrow> (case prefix of App \<Rightarrow> js ''jetkvm_app'' | System \<Rightarrow> js ''system.tar''))))"
  by (auto simp: resolveArtifactPath_def Let_def split: sum.splits bool.splits if_splits)

theorem resolveArtifactPath_no_fallback_witness:
  "versionHasSkuSupport (mockS3 sku_bucket) App (js ''1.0.0'') = Inr False \<and> js ''jetkvm-v3'' \<noteq> DEFAULT_SKU \<and>
   resolveArtifactPath (mockS3 sku_bucket) App (js ''1.0.0'') (js ''jetkvm-v3'') None =
     Inl (NotFoundError (js ''Version 1.0.0 predates SKU support and cannot serve SKU '' @ dquote @ js ''jetkvm-v3'' @ dquote)) \<and>
   versionHasSkuSupport (mockS3 sku_bucket) App (js ''2.0.0'') = Inr True \<and>
   s3ObjectExists (mockS3 sku_bucket) (js ''app/2.0.0/skus/jetkvm-v3/jetkvm_app'') = Inr False \<and>
   resolveArtifactPath (mockS3 sku_bucket) App (js ''2.0.0'') (js ''jetkvm-v3'') None =
     Inl (NotFoundError (js ''SKU '' @ dquote @ js ''jetkvm-v3'' @ dquote @ js '' is not available for version 2.0.0'')) \<and>
   resolveArtifactPath (mockS3 sku_bucket) App (js ''2.0.0'') (js ''jetkvm-v2'') None =
     Inr (js ''app/2.0.0/skus/jetkvm-v2/jetkvm_app'') \<and>
   resolveArtifactPath (mockS3 sku_bucket) App (js ''1.0.0'') (js ''jetkvm-v2'') None = Inr (js ''app/1.0.0/jetkvm_app'')"
proof -
  have l: "versionHasSkuSupport (mockS3 sku_bucket) App (js ''1.0.0'') = Inr False"
    by code_simp
  have n: "js ''jetkvm-v3'' \<noteq> DEFAULT_SKU"
    by (simp add: DEFAULT_SKU_def)
  have p: "versionHasSkuSupport (mockS3 sku_bucket) App (js ''2.0.0'') = Inr True"
    by code_simp
  have a: "s3ObjectExists (mockS3 sku_bucket) (js ''app/2.0.0/skus/jetkvm-v3/jetkvm_app'') = Inr False"
    by code_simp
  have r2: "resolveArtifactPath (mockS3 sku_bucket) App (js ''2.0.0'') (js ''jetkvm-v2'') None =
     Inr (js ''app/2.0.0/skus/jetkvm-v2/jetkvm_app'')"
    by code_simp
  have r1: "resolveArtifactPath (mockS3 sku_bucket) App (js ''1.0.0'') (js ''jetkvm-v2'') None = Inr (js ''app/1.0.0/jetkvm_app'')"
    by code_simp
  from resolveArtifactPath_no_fallback [of "mockS3 sku_bucket" App "js ''1.0.0''" "js ''jetkvm-v3''" None]
       resolveArtifactPath_no_fallback [of "mockS3 sku_bucket" App "js ''2.0.0''" "js ''jetkvm-v3''" None]
       l n p a r1 r2
  show ?thesis by (simp add: kind_name_def)
qed

section \<open>The latest version of a kind\<close>

lemma fetchRelease_version:
  "fetchRelease e prefix m rng sku key cache = (Inr r, c) \<Longrightarrow> version r = m"
  by (auto simp: fetchRelease_def Let_def split: sum.splits option.splits)

lemma maxSatisfying_star_example:
  "maxSatisfying lib [js ''1.0.0'', js ''1.1.0'', js ''2.0.0-beta.1''] (js ''*'') p =
     Some (if p then js ''2.0.0-beta.1'' else js ''1.1.0'')"
proof -
  have l: "maxSatisfying lib [js ''1.0.0'', js ''1.1.0'', js ''2.0.0-beta.1''] (js ''*'') p =
           maxSatisfying exact_ranges [js ''1.0.0'', js ''1.1.0'', js ''2.0.0-beta.1''] (js ''*'') p"
    by (simp add: maxSatisfying_def Range_new_def)
  have f: "maxSatisfying exact_ranges [js ''1.0.0'', js ''1.1.0'', js ''2.0.0-beta.1''] (js ''*'') False = Some (js ''1.1.0'')"
    by code_simp
  have t: "maxSatisfying exact_ranges [js ''1.0.0'', js ''1.1.0'', js ''2.0.0-beta.1''] (js ''*'') True = Some (js ''2.0.0-beta.1'')"
    by code_simp
  show ?thesis
    unfolding l using f t by (cases p) simp_all
qed

lemma getLatestVersion_miss:
  assumes "cache (kind_name prefix @ js ''-'' @ bool_text p @ js ''-'' @ rng @ js ''-'' @ sku) = None"
    and "rng = (case arg of None \<Rightarrow> js ''*'' | Some r \<Rightarrow> r)"
    and "listObjectsV2 (s3 e) (kind_name prefix @ js ''/'') (Some (js ''/'')) None = Inr response"
    and "versions = filter semver_valid (folder_names (case CommonPrefixes response of None \<Rightarrow> [] | Some cps \<Rightarrow> cps))"
  shows "getLatestVersion e prefix p arg sku cache =
     (if versions = [] then
        (Inl (NotFoundError ((if CommonPrefixes response = None \<or> CommonPrefixes response = Some []
                              then js ''No versions found under prefix ''
                              else js ''No valid versions found under prefix '') @ kind_name prefix)), cache)
      else (case maxSatisfying (ranges e) versions rng p of
              None \<Rightarrow> (Inl (NotFoundError (js ''No version found under prefix '' @ kind_name prefix @
                                          js '' that satisfies '' @ rng)), cache)
            | Some m \<Rightarrow> fetchRelease e prefix m rng sku
                         (kind_name prefix @ js ''-'' @ bool_text p @ js ''-'' @ rng @ js ''-'' @ sku) cache))"
  using assms
  by (auto simp: getLatestVersion_def Let_def folder_names_def List.map_filter_simps
           split: option.splits sum.splits)

text \<open>
  C7, as amended. When the release cache has no entry for the key of the call,
  \<^verbatim>\<open>getLatestVersion\<close> lists the folders of the kind and keeps the names that are valid
  versions; the other names are dropped without an error. It fails with a not-found error
  when no valid version remains and when no remaining version satisfies the range.
  Otherwise it goes on with the maximum satisfying version: that version is in the listing,
  satisfies the range, no satisfying version of the listing compares greater than it, and a
  result of the call carries it. For the listing 1.0.0, 1.1.0, 2.0.0-beta.1 and no range
  this version is 1.1.0 without \<^verbatim>\<open>includePrerelease\<close> and 2.0.0-beta.1 with it.
\<close>

theorem getLatestVersion_on_cache_miss:
  assumes "cache (kind_name prefix @ js ''-'' @ bool_text p @ js ''-'' @ rng @ js ''-'' @ sku) = None"
    and "rng = (case arg of None \<Rightarrow> js ''*'' | Some r \<Rightarrow> r)"
    and "listObjectsV2 (s3 e) (kind_name prefix @ js ''/'') (Some (js ''/'')) None = Inr response"
    and "versions = filter semver_valid (folder_names (case CommonPrefixes response of None \<Rightarrow> [] | Some cps \<Rightarrow> cps))"
  shows "(versions = [] \<longrightarrow>
            (\<exists>msg. getLatestVersion e prefix p arg sku cache = (Inl (NotFoundError msg), cache))) \<and>
         (versions \<noteq> [] \<and> maxSatisfying (ranges e) versions rng p = None \<longrightarrow>
            getLatestVersion e prefix p arg sku cache =
              (Inl (NotFoundError (js ''No version found under prefix '' @ kind_name prefix @
                                   js '' that satisfies '' @ rng)), cache)) \<and>
         (\<forall>m. maxSatisfying (ranges e) versions rng p = Some m \<longrightarrow>
            getLatestVersion e prefix p arg sku cache =
              fetchRelease e prefix m rng sku
                (kind_name prefix @ js ''-'' @ bool_text p @ js ''-'' @ rng @ js ''-'' @ sku) cache) \<and>
         (\<forall>r c. getLatestVersion e prefix p arg sku cache = (Inr r, c) \<longrightarrow>
            maxSatisfying (ranges e) versions rng p = Some (version r)) \<and>
         (\<forall>t. Range_new (ranges e) rng p = Some t \<longrightarrow>
            (maxSatisfying (ranges e) versions rng p = None \<longleftrightarrow> (\<forall>v\<in>set versions. \<not> Range_test t v)) \<and>
            (\<forall>m. maxSatisfying (ranges e) versions rng p = Some m \<longrightarrow>
                 m \<in> set versions \<and> Range_test t m \<and>
                 (\<forall>v\<in>set versions. Range_test t v \<longrightarrow> version_le v m))) \<and>
         (\<forall>v\<in>set versions. semver_valid v) \<and>
         (versions = [js ''1.0.0'', js ''1.1.0'', js ''2.0.0-beta.1''] \<and> arg = None \<longrightarrow>
            maxSatisfying (ranges e) versions rng p = Some (if p then js ''2.0.0-beta.1'' else js ''1.1.0''))"
proof -
  note miss = getLatestVersion_miss [where cache = cache, OF assms]
  have a: "versions = [] \<longrightarrow>
            (\<exists>msg. getLatestVersion e prefix p arg sku cache = (Inl (NotFoundError msg), cache))"
    unfolding miss by simp
  have b: "versions \<noteq> [] \<and> maxSatisfying (ranges e) versions rng p = None \<longrightarrow>
            getLatestVersion e prefix p arg sku cache =
              (Inl (NotFoundError (js ''No version found under prefix '' @ kind_name prefix @
                                   js '' that satisfies '' @ rng)), cache)"
    unfolding miss by simp
  have mem: "\<And>m. maxSatisfying (ranges e) versions rng p = Some m \<Longrightarrow> versions \<noteq> []"
    by (auto simp: maxSatisfying_def split: option.splits)
  have c: "\<forall>m. maxSatisfying (ranges e) versions rng p = Some m \<longrightarrow>
            getLatestVersion e prefix p arg sku cache =
              fetchRelease e prefix m rng sku
                (kind_name prefix @ js ''-'' @ bool_text p @ js ''-'' @ rng @ js ''-'' @ sku) cache"
    unfolding miss using mem by auto
  have d: "\<forall>r c. getLatestVersion e prefix p arg sku cache = (Inr r, c) \<longrightarrow>
            maxSatisfying (ranges e) versions rng p = Some (version r)"
    unfolding miss by (auto split: if_splits option.splits dest: fetchRelease_version)
  have f: "\<forall>t. Range_new (ranges e) rng p = Some t \<longrightarrow>
            (maxSatisfying (ranges e) versions rng p = None \<longleftrightarrow> (\<forall>v\<in>set versions. \<not> Range_test t v)) \<and>
            (\<forall>m. maxSatisfying (ranges e) versions rng p = Some m \<longrightarrow>
                 m \<in> set versions \<and> Range_test t m \<and>
                 (\<forall>v\<in>set versions. Range_test t v \<longrightarrow> version_le v m))"
    using maxSatisfying_None [of "ranges e" rng p _ versions]
          maxSatisfying_Some [of "ranges e" rng p _ versions]
    by blast
  have g: "\<forall>v\<in>set versions. semver_valid v"
    using assms(4) by simp
  have h: "versions = [js ''1.0.0'', js ''1.1.0'', js ''2.0.0-beta.1''] \<and> arg = None \<longrightarrow>
            maxSatisfying (ranges e) versions rng p = Some (if p then js ''2.0.0-beta.1'' else js ''1.1.0'')"
    using assms(2) maxSatisfying_star_example [of "ranges e" p]
    by auto
  from a b c d f g h show ?thesis by blast
qed

theorem getLatestVersion_on_cache_miss_witness:
  "Map.empty (js ''app-false-*-jetkvm-v2'') = (None :: ReleaseMetadata option) \<and>
   listObjectsV2 (s3 (test_env listing_bucket)) (js ''app/'') (Some (js ''/'')) None =
     Inr \<lparr>Contents = None,
          CommonPrefixes = Some [js ''app/1.0.0/'', js ''app/1.1.0/'', js ''app/2.0.0-beta.1/'', js ''app/not-semver/'']\<rparr> \<and>
   filter semver_valid (folder_names [js ''app/1.0.0/'', js ''app/1.1.0/'', js ''app/2.0.0-beta.1/'', js ''app/not-semver/''])
     = [js ''1.0.0'', js ''1.1.0'', js ''2.0.0-beta.1''] \<and>
   maxSatisfying exact_ranges [js ''1.0.0'', js ''1.1.0'', js ''2.0.0-beta.1''] (js ''*'') False = Some (js ''1.1.0'') \<and>
   maxSatisfying exact_ranges [js ''1.0.0'', js ''1.1.0'', js ''2.0.0-beta.1''] (js ''*'') True = Some (js ''2.0.0-beta.1'') \<and>
   fst (getLatestVersion (test_env listing_bucket) App False None (js ''jetkvm-v2'') Map.empty) =
     Inr \<lparr>version = js ''1.1.0'', url = js ''https://cdn.test.com/app/1.1.0/jetkvm_app'',
          hash = js ''hash-app-110'', cachedAt = Some 1700000000000, maxSatisfyingOf = Some (js ''*'')\<rparr> \<and>
   fst (getLatestVersion (test_env listing_bucket) App True None (js ''jetkvm-v2'') Map.empty) =
     Inr \<lparr>version = js ''2.0.0-beta.1'', url = js ''https://cdn.test.com/app/2.0.0-beta.1/jetkvm_app'',
          hash = js ''hash-app-200b1'', cachedAt = Some 1700000000000, maxSatisfyingOf = Some (js ''*'')\<rparr> \<and>
   maxSatisfying exact_ranges [js ''1.0.0'', js ''1.1.0'', js ''2.0.0-beta.1''] (js ''5.0.0'') False = None \<and>
   getLatestVersion (test_env listing_bucket) App False (Some (js ''5.0.0'')) (js ''jetkvm-v2'') Map.empty =
     (Inl (NotFoundError (js ''No version found under prefix app that satisfies 5.0.0'')), Map.empty) \<and>
   filter semver_valid (folder_names [js ''app/invalid-version/'', js ''app/not-semver/'']) = [] \<and>
   (\<exists>msg. getLatestVersion (test_env junk_bucket) App False None (js ''jetkvm-v2'') Map.empty =
     (Inl (NotFoundError msg), Map.empty)) \<and>
   listObjectsV2 (s3 (test_env big_tag_bucket)) (js ''app/'') (Some (js ''/'')) None =
     Inr \<lparr>Contents = None,
          CommonPrefixes = Some [js ''app/1.0.0-9007199254740992/'', js ''app/1.0.0-9007199254740993/'']\<rparr> \<and>
   maxSatisfying exact_ranges [js ''1.0.0-9007199254740992'', js ''1.0.0-9007199254740993''] (js ''*'') True =
     Some (js ''1.0.0-9007199254740992'') \<and>
   version_le (js ''1.0.0-9007199254740993'') (js ''1.0.0-9007199254740992'') \<and>
   fst (getLatestVersion (test_env big_tag_bucket) App True None (js ''jetkvm-v2'') Map.empty) =
     Inr \<lparr>version = js ''1.0.0-9007199254740992'',
          url = js ''https://cdn.test.com/app/1.0.0-9007199254740992/jetkvm_app'',
          hash = js ''hash-a'', cachedAt = Some 1700000000000, maxSatisfyingOf = Some (js ''*'')\<rparr>"
proof -
  let ?resp = "\<lparr>Contents = None,
      CommonPrefixes = Some [js ''app/1.0.0/'', js ''app/1.1.0/'', js ''app/2.0.0-beta.1/'', js ''app/not-semver/'']\<rparr>"
  let ?junk = "\<lparr>Contents = None, CommonPrefixes = Some [js ''app/not-semver/'', js ''app/invalid-version/'']\<rparr>"
  let ?vs = "[js ''1.0.0'', js ''1.1.0'', js ''2.0.0-beta.1'']"
  let ?big = "\<lparr>Contents = None,
      CommonPrefixes = Some [js ''app/1.0.0-9007199254740992/'', js ''app/1.0.0-9007199254740993/'']\<rparr>"
  let ?bs = "[js ''1.0.0-9007199254740992'', js ''1.0.0-9007199254740993'']"
  have k: "\<And>p r. (Map.empty :: ReleaseMetadata cache)
             (kind_name App @ js ''-'' @ bool_text p @ js ''-'' @ r @ js ''-'' @ js ''jetkvm-v2'') = None"
    by simp
  have r0: "js ''*'' = (case (None :: jstring option) of None \<Rightarrow> js ''*'' | Some r \<Rightarrow> r)"
    by simp
  have r5: "js ''5.0.0'' = (case Some (js ''5.0.0'') of None \<Rightarrow> js ''*'' | Some r \<Rightarrow> r)"
    by simp
  have l: "listObjectsV2 (s3 (test_env listing_bucket)) (kind_name App @ js ''/'') (Some (js ''/'')) None = Inr ?resp"
    by code_simp
  have lj: "listObjectsV2 (s3 (test_env junk_bucket)) (kind_name App @ js ''/'') (Some (js ''/'')) None = Inr ?junk"
    by code_simp
  have v: "?vs = filter semver_valid (folder_names (case CommonPrefixes ?resp of None \<Rightarrow> [] | Some cps \<Rightarrow> cps))"
    by code_simp
  have vj: "[] = filter semver_valid (folder_names (case CommonPrefixes ?junk of None \<Rightarrow> [] | Some cps \<Rightarrow> cps))"
    by code_simp
  have vj': "filter semver_valid (folder_names [js ''app/invalid-version/'', js ''app/not-semver/'']) = []"
    by code_simp
  have m5: "maxSatisfying exact_ranges ?vs (js ''5.0.0'') False = None"
    by code_simp
  have lb: "listObjectsV2 (s3 (test_env big_tag_bucket)) (kind_name App @ js ''/'') (Some (js ''/'')) None = Inr ?big"
    by code_simp
  have vb: "?bs = filter semver_valid (folder_names (case CommonPrefixes ?big of None \<Rightarrow> [] | Some cps \<Rightarrow> cps))"
    by code_simp
  have mb: "maxSatisfying exact_ranges ?bs (js ''*'') True = Some (js ''1.0.0-9007199254740992'')"
    by code_simp
  have sb: "Range_new exact_ranges (js ''*'') True = Some (\<lambda>v. True)"
    by (simp add: Range_new_def)
  have tb: "Range_test (\<lambda>v. True) (js ''1.0.0-9007199254740993'')"
    by code_simp
  have rb: "ranges (test_env big_tag_bucket) = exact_ranges"
    by (simp add: test_env_def)
  have f3: "fst (fetchRelease (test_env big_tag_bucket) App (js ''1.0.0-9007199254740992'') (js ''*'') (js ''jetkvm-v2'')
                   (kind_name App @ js ''-'' @ bool_text True @ js ''-'' @ js ''*'' @ js ''-'' @ js ''jetkvm-v2'') Map.empty) =
     Inr \<lparr>version = js ''1.0.0-9007199254740992'',
          url = js ''https://cdn.test.com/app/1.0.0-9007199254740992/jetkvm_app'',
          hash = js ''hash-a'', cachedAt = Some 1700000000000, maxSatisfyingOf = Some (js ''*'')\<rparr>"
    by code_simp
  have rg: "ranges (test_env listing_bucket) = exact_ranges"
    by (simp add: test_env_def)
  have f1: "fst (fetchRelease (test_env listing_bucket) App (js ''1.1.0'') (js ''*'') (js ''jetkvm-v2'')
                   (kind_name App @ js ''-'' @ bool_text False @ js ''-'' @ js ''*'' @ js ''-'' @ js ''jetkvm-v2'') Map.empty) =
     Inr \<lparr>version = js ''1.1.0'', url = js ''https://cdn.test.com/app/1.1.0/jetkvm_app'',
          hash = js ''hash-app-110'', cachedAt = Some 1700000000000, maxSatisfyingOf = Some (js ''*'')\<rparr>"
    by code_simp
  have f2: "fst (fetchRelease (test_env listing_bucket) App (js ''2.0.0-beta.1'') (js ''*'') (js ''jetkvm-v2'')
                   (kind_name App @ js ''-'' @ bool_text True @ js ''-'' @ js ''*'' @ js ''-'' @ js ''jetkvm-v2'') Map.empty) =
     Inr \<lparr>version = js ''2.0.0-beta.1'', url = js ''https://cdn.test.com/app/2.0.0-beta.1/jetkvm_app'',
          hash = js ''hash-app-200b1'', cachedAt = Some 1700000000000, maxSatisfyingOf = Some (js ''*'')\<rparr>"
    by code_simp
  note stable = getLatestVersion_on_cache_miss [where cache = Map.empty, OF k r0 l v, of False]
  note pre = getLatestVersion_on_cache_miss [where cache = Map.empty, OF k r0 l v, of True]
  note pinned = getLatestVersion_on_cache_miss [where cache = Map.empty, OF k r5 l v, of False]
  note junk = getLatestVersion_on_cache_miss [where cache = Map.empty, OF k r0 lj vj, of False]
  note big = getLatestVersion_on_cache_miss [where cache = Map.empty, OF k r0 lb vb, of True]
  have a: "maxSatisfying exact_ranges ?vs (js ''*'') False = Some (js ''1.1.0'')"
    using stable rg by simp
  have b: "maxSatisfying exact_ranges ?vs (js ''*'') True = Some (js ''2.0.0-beta.1'')"
    using pre rg by simp
  have c: "fst (getLatestVersion (test_env listing_bucket) App False None (js ''jetkvm-v2'') Map.empty) =
     Inr \<lparr>version = js ''1.1.0'', url = js ''https://cdn.test.com/app/1.1.0/jetkvm_app'',
          hash = js ''hash-app-110'', cachedAt = Some 1700000000000, maxSatisfyingOf = Some (js ''*'')\<rparr>"
    using stable a rg f1 by simp
  have d: "fst (getLatestVersion (test_env listing_bucket) App True None (js ''jetkvm-v2'') Map.empty) =
     Inr \<lparr>version = js ''2.0.0-beta.1'', url = js ''https://cdn.test.com/app/2.0.0-beta.1/jetkvm_app'',
          hash = js ''hash-app-200b1'', cachedAt = Some 1700000000000, maxSatisfyingOf = Some (js ''*'')\<rparr>"
    using pre b rg f2 by simp
  have e: "getLatestVersion (test_env listing_bucket) App False (Some (js ''5.0.0'')) (js ''jetkvm-v2'') Map.empty =
     (Inl (NotFoundError (js ''No version found under prefix app that satisfies 5.0.0'')), Map.empty)"
    using pinned m5 rg by (simp add: kind_name_def)
  have g: "\<exists>msg. getLatestVersion (test_env junk_bucket) App False None (js ''jetkvm-v2'') Map.empty =
     (Inl (NotFoundError msg), Map.empty)"
    using junk by simp
  have h: "version_le (js ''1.0.0-9007199254740993'') (js ''1.0.0-9007199254740992'')"
    using big mb sb tb rb by simp
  have i: "fst (getLatestVersion (test_env big_tag_bucket) App True None (js ''jetkvm-v2'') Map.empty) =
     Inr \<lparr>version = js ''1.0.0-9007199254740992'',
          url = js ''https://cdn.test.com/app/1.0.0-9007199254740992/jetkvm_app'',
          hash = js ''hash-a'', cachedAt = Some 1700000000000, maxSatisfyingOf = Some (js ''*'')\<rparr>"
    using big mb rb f3 by simp
  from a b c d e g l v vj' m5 lb mb h i show ?thesis
    by (simp add: kind_name_def)
qed

text \<open>
  The claim without the condition on the cache fails. A first request, made while the store
  lists version 1.0.0 only, leaves its result in the release cache. A second request with
  the same key is answered from the cache: it yields 1.0.0 although the listing is now
  1.0.0, 1.1.0, 2.0.0-beta.1 and its maximum stable version is 1.1.0, and it yields 1.0.0
  instead of a not-found error when the listing has no valid version.
\<close>

theorem getLatestVersion_cached_counterexample:
  "maxSatisfying exact_ranges [js ''1.0.0'', js ''1.1.0'', js ''2.0.0-beta.1''] (js ''*'') False = Some (js ''1.1.0'') \<and>
   listObjectsV2 (s3 (test_env listing_bucket)) (js ''app/'') (Some (js ''/'')) None =
     Inr \<lparr>Contents = None,
          CommonPrefixes = Some [js ''app/1.0.0/'', js ''app/1.1.0/'', js ''app/2.0.0-beta.1/'', js ''app/not-semver/'']\<rparr> \<and>
   fst (getLatestVersion (test_env listing_bucket) App False None (js ''jetkvm-v2'')
          (snd (getLatestVersion (test_env early_bucket) App False None (js ''jetkvm-v2'') Map.empty))) =
     Inr \<lparr>version = js ''1.0.0'', url = js ''https://cdn.test.com/app/1.0.0/jetkvm_app'',
          hash = js ''hash-app-100'', cachedAt = Some 1700000000000, maxSatisfyingOf = Some (js ''*'')\<rparr> \<and>
   listObjectsV2 (s3 (test_env junk_bucket)) (js ''app/'') (Some (js ''/'')) None =
     Inr \<lparr>Contents = None, CommonPrefixes = Some [js ''app/not-semver/'', js ''app/invalid-version/'']\<rparr> \<and>
   fst (getLatestVersion (test_env junk_bucket) App False None (js ''jetkvm-v2'')
          (snd (getLatestVersion (test_env early_bucket) App False None (js ''jetkvm-v2'') Map.empty))) =
     Inr \<lparr>version = js ''1.0.0'', url = js ''https://cdn.test.com/app/1.0.0/jetkvm_app'',
          hash = js ''hash-app-100'', cachedAt = Some 1700000000000, maxSatisfyingOf = Some (js ''*'')\<rparr>"
  by code_simp

section \<open>The default release\<close>

lemma Range_new_stable: "Range_new lib (js ''*'') False = Some (\<lambda>v. prerelease v = [])"
  by (simp add: Range_new_def)

lemma Range_test_stable: "Range_test (\<lambda>v. prerelease v = []) v \<longleftrightarrow> stable_version v"
  by (simp add: Range_test_def stable_version_def split: option.splits)

lemma prerelease_not_stable: "prerelease_version v \<Longrightarrow> \<not> stable_version v"
  by (auto simp: prerelease_version_def stable_version_def split: option.splits)

lemma getDefaultRelease_no_stable:
  assumes "\<forall>r\<in>set (release_findMany db t 100). \<not> stable_version (r_version r)"
  shows "getDefaultRelease e db t =
           Inl (InternalServerError (js ''No default release found for type '' @ kind_name t))"
proof -
  have "maxSatisfying (ranges e) (map r_version (release_findMany db t 100)) (js ''*'') False = None"
    using assms maxSatisfying_None [OF Range_new_stable, of "ranges e" "map r_version (release_findMany db t 100)"]
    by (simp add: Range_test_stable)
  then show ?thesis
    by (simp add: getDefaultRelease_def Let_def)
qed

lemma getDefaultRelease_some_stable:
  assumes "\<exists>r\<in>set (release_findMany db t 100). stable_version (r_version r)"
  shows "\<exists>r\<in>set (release_findMany db t 100).
           getDefaultRelease e db t = Inr (row_metadata r) \<and> stable_version (r_version r) \<and>
           (\<forall>r'\<in>set (release_findMany db t 100).
               stable_version (r_version r') \<longrightarrow> version_le (r_version r') (r_version r))"
proof -
  let ?rolled = "release_findMany db t 100"
  let ?vs = "map r_version ?rolled"
  from assms have ne: "?rolled \<noteq> []" by auto
  have "maxSatisfying (ranges e) ?vs (js ''*'') False \<noteq> None"
    using assms maxSatisfying_None [OF Range_new_stable, of "ranges e" ?vs]
    by (auto simp: Range_test_stable)
  then obtain m where m: "maxSatisfying (ranges e) ?vs (js ''*'') False = Some m" by auto
  from maxSatisfying_Some [OF Range_new_stable m]
  have mem: "m \<in> set ?vs" and st: "stable_version m"
    and mx: "\<forall>v\<in>set ?vs. stable_version v \<longrightarrow> version_le v m"
    by (simp_all add: Range_test_stable)
  from mem obtain r where r: "find (\<lambda>r. r_version r = m) ?rolled = Some r"
    by (cases "find (\<lambda>r. r_version r = m) ?rolled") (auto simp: find_None_iff)
  then have rin: "r \<in> set ?rolled" and rv: "r_version r = m"
    by (auto simp: find_Some_iff)
  have "getDefaultRelease e db t = Inr (row_metadata r)"
    using ne m r by (simp add: getDefaultRelease_def Let_def)
  with rin rv st mx show ?thesis by auto
qed

text \<open>
  C6, as amended. The default release of a kind is a persisted release of that kind with
  rollout percentage 100 and a stable (valid, not prerelease) version that no other such
  release exceeds in semver precedence (in the comparison of the semver package, which reads
  a version without the white space around it). The operation fails with \<open>InternalServerError\<close>,
  not with a not-found error, when no release of the kind has rollout percentage 100, and
  also when none of those releases has a stable version.
\<close>

theorem getDefaultRelease_max_stable:
  "(release_findMany db t 100 = [] \<longrightarrow>
      getDefaultRelease e db t =
        Inl (InternalServerError (js ''No default release found for type '' @ kind_name t))) \<and>
   ((\<forall>r\<in>set (release_findMany db t 100). \<not> stable_version (r_version r)) \<longrightarrow>
      getDefaultRelease e db t =
        Inl (InternalServerError (js ''No default release found for type '' @ kind_name t))) \<and>
   ((\<exists>r\<in>set (release_findMany db t 100). stable_version (r_version r)) \<longrightarrow>
      (\<exists>r\<in>set db. r_type r = t \<and> rolloutPercentage r = 100 \<and> stable_version (r_version r) \<and>
          getDefaultRelease e db t = Inr (row_metadata r) \<and>
          (\<forall>r'\<in>set db. r_type r' = t \<and> rolloutPercentage r' = 100 \<and> stable_version (r_version r')
                \<longrightarrow> version_le (r_version r') (r_version r))))"
proof (intro conjI impI)
  assume "release_findMany db t 100 = []"
  then show "getDefaultRelease e db t =
        Inl (InternalServerError (js ''No default release found for type '' @ kind_name t))"
    by (simp add: getDefaultRelease_def)
next
  assume "\<forall>r\<in>set (release_findMany db t 100). \<not> stable_version (r_version r)"
  then show "getDefaultRelease e db t =
        Inl (InternalServerError (js ''No default release found for type '' @ kind_name t))"
    by (rule getDefaultRelease_no_stable)
next
  assume "\<exists>r\<in>set (release_findMany db t 100). stable_version (r_version r)"
  from getDefaultRelease_some_stable [OF this, of e]
  show "\<exists>r\<in>set db. r_type r = t \<and> rolloutPercentage r = 100 \<and> stable_version (r_version r) \<and>
          getDefaultRelease e db t = Inr (row_metadata r) \<and>
          (\<forall>r'\<in>set db. r_type r' = t \<and> rolloutPercentage r' = 100 \<and> stable_version (r_version r')
                \<longrightarrow> version_le (r_version r') (r_version r))"
    by (auto simp: release_findMany_def)
qed

theorem getDefaultRelease_max_stable_witness:
  "release_findMany seed_db App 100 = [seed_row App (js ''1.0.0'') 100, seed_row App (js ''1.1.0'') 100] \<and>
   stable_version (js ''1.0.0'') \<and> stable_version (js ''1.1.0'') \<and>
   version_le (js ''1.0.0'') (js ''1.1.0'') \<and> version_le (js ''1.1.0'') (js ''1.1.0'') \<and>
   getDefaultRelease (test_env []) seed_db App = Inr (row_metadata (seed_row App (js ''1.1.0'') 100)) \<and>
   release_findMany rc_only_db App 100 = [seed_row App (js ''2.0.0-rc.1'') 100] \<and>
   \<not> stable_version (js ''2.0.0-rc.1'') \<and>
   getDefaultRelease (test_env []) rc_only_db App =
     Inl (InternalServerError (js ''No default release found for type app'')) \<and>
   release_findMany [] App 100 = [] \<and>
   getDefaultRelease (test_env []) [] App =
     Inl (InternalServerError (js ''No default release found for type app'')) \<and>
   release_findMany padded_db App 100 =
     [seed_row App (js ''1.0.0'') 100, seed_row App (0x00A0 # js ''2.0.0'') 100] \<and>
   stable_version (0x00A0 # js ''2.0.0'') \<and>
   version_le (js ''1.0.0'') (0x00A0 # js ''2.0.0'') \<and>
   version_le (0x00A0 # js ''2.0.0'') (0x00A0 # js ''2.0.0'') \<and>
   getDefaultRelease (test_env []) padded_db App =
     Inr (row_metadata (seed_row App (0x00A0 # js ''2.0.0'') 100))"
proof -
  have a: "release_findMany seed_db App 100 = [seed_row App (js ''1.0.0'') 100, seed_row App (js ''1.1.0'') 100]"
    by code_simp
  have s: "stable_version (js ''1.0.0'')" "stable_version (js ''1.1.0'')" "\<not> stable_version (js ''2.0.0-rc.1'')"
    by code_simp+
  have l: "version_le (js ''1.0.0'') (js ''1.1.0'')" "version_le (js ''1.1.0'') (js ''1.1.0'')" "\<not> version_le (js ''1.1.0'') (js ''1.0.0'')"
    by code_simp+
  have b: "release_findMany rc_only_db App 100 = [seed_row App (js ''2.0.0-rc.1'') 100]"
    by code_simp
  have c: "release_findMany [] App 100 = []"
    by code_simp
  from getDefaultRelease_max_stable [of seed_db App "test_env []"] a s l
  have v: "getDefaultRelease (test_env []) seed_db App = Inr (row_metadata (seed_row App (js ''1.1.0'') 100))"
    by (auto simp: seed_db_def seed_row_def)
  have d: "release_findMany padded_db App 100 =
     [seed_row App (js ''1.0.0'') 100, seed_row App (0x00A0 # js ''2.0.0'') 100]"
    by code_simp
  have sp: "stable_version (0x00A0 # js ''2.0.0'')"
    by code_simp
  have lp: "version_le (js ''1.0.0'') (0x00A0 # js ''2.0.0'')"
    "version_le (0x00A0 # js ''2.0.0'') (0x00A0 # js ''2.0.0'')"
    "\<not> version_le (0x00A0 # js ''2.0.0'') (js ''1.0.0'')"
    by code_simp+
  from getDefaultRelease_max_stable [of padded_db App "test_env []"] d s sp l lp
  have w: "getDefaultRelease (test_env []) padded_db App =
     Inr (row_metadata (seed_row App (0x00A0 # js ''2.0.0'') 100))"
    by (auto simp: padded_db_def seed_row_def)
  from getDefaultRelease_max_stable [of rc_only_db App "test_env []"]
       getDefaultRelease_max_stable [of "[]" App "test_env []"] a b c s l v d sp lp w
  show ?thesis by (simp add: seed_row_def kind_name_def)
qed

text \<open>
  The claim without the restriction to stable versions fails: with the app rows 1.0.0 and
  2.0.0-rc.1 both at 100 percent the default release is 1.0.0, although 2.0.0-rc.1 is the
  greater version.
\<close>

theorem getDefaultRelease_prerelease_counterexample:
  "getDefaultRelease (test_env []) rc_mixed_db App = Inr (row_metadata (seed_row App (js ''1.0.0'') 100)) \<and>
   release_findMany rc_mixed_db App 100 = [seed_row App (js ''1.0.0'') 100, seed_row App (js ''2.0.0-rc.1'') 100] \<and>
   version_le (js ''1.0.0'') (js ''2.0.0-rc.1'') \<and> \<not> version_le (js ''2.0.0-rc.1'') (js ''1.0.0'')"
  by code_simp

text \<open>
  C10. When a kind has releases with rollout percentage 100 and every one of them has a
  prerelease version, \<^verbatim>\<open>getDefaultRelease\<close> fails with the internal server error: the
  selection against \<^verbatim>\<open>"*"\<close> without \<^verbatim>\<open>includePrerelease\<close> matches none of them.
\<close>

theorem getDefaultRelease_prerelease_only:
  "release_findMany db t 100 \<noteq> [] \<and>
   (\<forall>r\<in>set (release_findMany db t 100). prerelease_version (r_version r)) \<longrightarrow>
     maxSatisfying (ranges e) (map r_version (release_findMany db t 100)) (js ''*'') False = None \<and>
     getDefaultRelease e db t =
       Inl (InternalServerError (js ''No default release found for type '' @ kind_name t))"
proof (intro impI, elim conjE)
  assume ne: "release_findMany db t 100 \<noteq> []"
    and pre: "\<forall>r\<in>set (release_findMany db t 100). prerelease_version (r_version r)"
  from pre have ns: "\<forall>r\<in>set (release_findMany db t 100). \<not> stable_version (r_version r)"
    by (auto dest: prerelease_not_stable)
  then have "maxSatisfying (ranges e) (map r_version (release_findMany db t 100)) (js ''*'') False = None"
    using maxSatisfying_None [OF Range_new_stable, of "ranges e" "map r_version (release_findMany db t 100)"]
    by (simp add: Range_test_stable)
  with getDefaultRelease_no_stable [OF ns, of e]
  show "maxSatisfying (ranges e) (map r_version (release_findMany db t 100)) (js ''*'') False = None \<and>
     getDefaultRelease e db t =
       Inl (InternalServerError (js ''No default release found for type '' @ kind_name t))"
    by simp
qed

theorem getDefaultRelease_prerelease_only_witness:
  "release_findMany rc_only_db App 100 = [seed_row App (js ''2.0.0-rc.1'') 100] \<and>
   prerelease_version (js ''2.0.0-rc.1'') \<and>
   getDefaultRelease (test_env []) rc_only_db App =
     Inl (InternalServerError (js ''No default release found for type app''))"
proof -
  have b: "release_findMany rc_only_db App 100 = [seed_row App (js ''2.0.0-rc.1'') 100]"
    by code_simp
  have p: "prerelease_version (js ''2.0.0-rc.1'')"
    by code_simp
  from getDefaultRelease_prerelease_only [of rc_only_db App "test_env []"] b p
  show ?thesis by (simp add: seed_row_def kind_name_def)
qed

section \<open>The Retrieve handler\<close>

lemma apply_no_update: "apply_update no_update r = r"
  by (simp add: apply_update_def no_update_def)

lemma release_upsert_absent:
  "release_find db key = None \<Longrightarrow> release_upsert db key u c = (c, db @ [c])"
  by (induction db) (auto simp: release_find_def split: if_splits)

lemma release_upsert_present:
  "release_find db key = Some row \<Longrightarrow> release_upsert db key no_update c = (row, db)"
  by (induction db) (auto simp: release_find_def apply_no_update split: if_splits)

lemma fetchRelease_md5: "fetchRelease (e\<lparr>md5Digest := h\<rparr>) = fetchRelease e"
  by (intro ext) (simp add: fetchRelease_def cong: sum.case_cong option.case_cong)

lemma getLatestVersion_md5: "getLatestVersion (e\<lparr>md5Digest := h\<rparr>) = getLatestVersion e"
  by (intro ext) (simp add: getLatestVersion_def fetchRelease_md5 cong: sum.case_cong option.case_cong if_cong)

lemma getReleaseFromS3_md5: "getReleaseFromS3 (e\<lparr>md5Digest := h\<rparr>) = getReleaseFromS3 e"
  by (intro ext) (simp add: getReleaseFromS3_def getLatestVersion_md5)

lemma Retrieve_parsed:
  assumes "parseRetrieveQuery req = Inr query"
  shows "Retrieve e req st =
     (let appVersionRange = toSemverRange (ranges e) (q_appVersion query);
          systemVersionRange = toSemverRange (ranges e) (q_systemVersion query);
          remote = getReleaseFromS3 e (q_prerelease query) (Some appVersionRange)
                     (Some systemVersionRange) (q_sku query) (releaseCache st);
          st1 = st\<lparr>releaseCache := snd remote\<rparr>
      in case fst remote of
           Inl err \<Rightarrow> (Inl (remoteFailure err), st1)
         | Inr remoteRelease \<Rightarrow>
             if q_prerelease query \<or> appVersionRange \<noteq> js ''*'' \<or> systemVersionRange \<noteq> js ''*''
             then (Inr remoteRelease, st1)
             else
               (let app = upsertLatest (releases st) App (appVersion remoteRelease)
                            (appUrl remoteRelease) (appHash remoteRelease);
                    sys = upsertLatest (snd app) System (systemVersion remoteRelease)
                            (systemUrl remoteRelease) (systemHash remoteRelease);
                    st2 = st1\<lparr>releases := snd sys\<rparr>
                in if q_forceUpdate query then
                     (Inr (toRelease (row_metadata (fst app)) (row_metadata (fst sys))), st2)
                   else
                     (case getDefaultRelease e (snd sys) App of
                        Inl err \<Rightarrow> (Inl err, st2)
                      | Inr defaultAppRelease \<Rightarrow>
                         (case getDefaultRelease e (snd sys) System of
                            Inl err \<Rightarrow> (Inl err, st2)
                          | Inr defaultSystemRelease \<Rightarrow>
                             (let r0 = toRelease defaultAppRelease defaultSystemRelease;
                                  r1 = (if isDeviceEligibleForLatestRelease (md5Digest e)
                                             (rolloutPercentage (fst app)) (q_deviceId query)
                                        then setAppRelease r0 (row_metadata (fst app)) else r0);
                                  r2 = (if isDeviceEligibleForLatestRelease (md5Digest e)
                                             (rolloutPercentage (fst sys)) (q_deviceId query)
                                        then setSystemRelease r1 (row_metadata (fst sys)) else r1)
                              in (Inr r2, st2))))))"
  using assms
  by (simp add: Retrieve_def Let_def split_beta split: sum.splits)

text \<open>
  C2. For a request that passes validation and has a normalized app or system range other
  than \<^verbatim>\<open>"*"\<close>, or asks for prereleases, the response of \<^verbatim>\<open>Retrieve\<close> is the outcome of the
  remote resolution: the resolved release, or its failure (a not-found error as it is, any
  other failure wrapped in an internal server error). The rows of the release store are
  the same after the request, and neither the response nor the release cache depends on
  them: the store is not read and not written. Nor does the outcome depend on the digest
  function behind the rollout bucket: no eligibility is checked.
\<close>

theorem Retrieve_pin_bypass:
  assumes "parseRetrieveQuery req = Inr query"
    and "toSemverRange (ranges e) (q_appVersion query) \<noteq> js ''*'' \<or>
         toSemverRange (ranges e) (q_systemVersion query) \<noteq> js ''*'' \<or> q_prerelease query"
    and "remote = getReleaseFromS3 e (q_prerelease query)
                    (Some (toSemverRange (ranges e) (q_appVersion query)))
                    (Some (toSemverRange (ranges e) (q_systemVersion query)))
                    (q_sku query) (releaseCache st)"
  shows "fst (Retrieve e req st) = (case fst remote of Inl err \<Rightarrow> Inl (remoteFailure err) | Inr r \<Rightarrow> Inr r) \<and>
         (\<forall>r. fst remote = Inr r \<longrightarrow> fst (Retrieve e req st) = Inr r) \<and>
         snd (Retrieve e req st) = st\<lparr>releaseCache := snd remote\<rparr> \<and>
         releases (snd (Retrieve e req st)) = releases st \<and>
         (\<forall>db. fst (Retrieve e req (st\<lparr>releases := db\<rparr>)) = fst (Retrieve e req st) \<and>
               releaseCache (snd (Retrieve e req (st\<lparr>releases := db\<rparr>))) =
                 releaseCache (snd (Retrieve e req st)) \<and>
               releases (snd (Retrieve e req (st\<lparr>releases := db\<rparr>))) = db) \<and>
         (\<forall>h. Retrieve (e\<lparr>md5Digest := h\<rparr>) req st = Retrieve e req st)"
proof -
  have "\<And>s h. releaseCache s = releaseCache st \<Longrightarrow>
          Retrieve (e\<lparr>md5Digest := h\<rparr>) req s =
            (case fst remote of Inl err \<Rightarrow> Inl (remoteFailure err) | Inr r \<Rightarrow> Inr r,
             s\<lparr>releaseCache := snd remote\<rparr>)"
    using assms(2,3) unfolding Retrieve_parsed [OF assms(1)]
    by (auto simp: Let_def getReleaseFromS3_md5 split: sum.splits)
  from this [of st "md5Digest e"] this [of "st\<lparr>releases := _\<rparr>" "md5Digest e"] this [of st]
  show ?thesis
    by (auto split: sum.splits)
qed

theorem Retrieve_pin_bypass_witness:
  "parseRetrieveQuery [js ''deviceId'' \<mapsto> js ''device-123'', js ''appVersion'' \<mapsto> js ''1.0.0''] =
     Inr \<lparr>q_deviceId = js ''device-123'', q_prerelease = False, q_appVersion = Some (js ''1.0.0''),
          q_systemVersion = None, q_sku = js ''jetkvm-v2'', q_forceUpdate = False\<rparr> \<and>
   toSemverRange exact_ranges (Some (js ''1.0.0'')) = js ''1.0.0'' \<and> js ''1.0.0'' \<noteq> js ''*'' \<and>
   fst (Retrieve (test_env listing_bucket) [js ''deviceId'' \<mapsto> js ''device-123'', js ''appVersion'' \<mapsto> js ''1.0.0'']
          (empty_state\<lparr>releases := seed_db\<rparr>)) =
     Inr \<lparr>appVersion = js ''1.0.0'', appUrl = js ''https://cdn.test.com/app/1.0.0/jetkvm_app'',
          appHash = js ''hash-app-100'', appCachedAt = Some 1700000000000, appMaxSatisfying = Some (js ''1.0.0''),
          systemVersion = js ''1.1.0'', systemUrl = js ''https://cdn.test.com/system/1.1.0/system.tar'',
          systemHash = js ''hash-sys-110'', systemCachedAt = Some 1700000000000,
          systemMaxSatisfying = Some (js ''*'')\<rparr> \<and>
   releases (snd (Retrieve (test_env listing_bucket)
                    [js ''deviceId'' \<mapsto> js ''device-123'', js ''appVersion'' \<mapsto> js ''1.0.0'']
                    (empty_state\<lparr>releases := seed_db\<rparr>))) = seed_db \<and>
   fst (Retrieve (test_env listing_bucket) [js ''deviceId'' \<mapsto> js ''device-123'', js ''appVersion'' \<mapsto> js ''1.0.0'']
          (empty_state\<lparr>releases := []\<rparr>)) =
   fst (Retrieve (test_env listing_bucket) [js ''deviceId'' \<mapsto> js ''device-123'', js ''appVersion'' \<mapsto> js ''1.0.0'']
          (empty_state\<lparr>releases := seed_db\<rparr>)) \<and>
   parseRetrieveQuery [js ''deviceId'' \<mapsto> js ''device-123'', js ''prerelease'' \<mapsto> js ''true''] =
     Inr \<lparr>q_deviceId = js ''device-123'', q_prerelease = True, q_appVersion = None,
          q_systemVersion = None, q_sku = js ''jetkvm-v2'', q_forceUpdate = False\<rparr> \<and>
   fst (getLatestVersion (test_env partial_bucket) App True (Some (js ''*'')) (js ''jetkvm-v2'') Map.empty) =
     Inl (ClientFault (S3Fault (js ''NoSuchKey'') (js ''The specified key does not exist.'') (Some 404))) \<and>
   fst (getLatestVersion (test_env partial_bucket) System True (Some (js ''*'')) (js ''jetkvm-v2'') Map.empty) =
     Inl (NotFoundError (js ''No versions found under prefix system'')) \<and>
   fst (Retrieve ((test_env partial_bucket)\<lparr>rejectsFirst := Second\<rparr>)
          [js ''deviceId'' \<mapsto> js ''device-123'', js ''prerelease'' \<mapsto> js ''true''] empty_state) =
     Inl (NotFoundError (js ''No versions found under prefix system'')) \<and>
   fst (Retrieve ((test_env partial_bucket)\<lparr>rejectsFirst := First\<rparr>)
          [js ''deviceId'' \<mapsto> js ''device-123'', js ''prerelease'' \<mapsto> js ''true''] empty_state) =
     Inl (InternalServerError
            (js ''Failed to get the latest release from S3: NoSuchKey: The specified key does not exist.'')) \<and>
   remoteFailure (ClientFault (S3Fault (js ''TimeoutError'') [] None)) =
     InternalServerError (js ''Failed to get the latest release from S3: TimeoutError'')"
proof -
  let ?req = "[js ''deviceId'' \<mapsto> js ''device-123'', js ''appVersion'' \<mapsto> js ''1.0.0'']"
  let ?q = "\<lparr>q_deviceId = js ''device-123'', q_prerelease = False, q_appVersion = Some (js ''1.0.0''),
          q_systemVersion = None, q_sku = js ''jetkvm-v2'', q_forceUpdate = False\<rparr>"
  let ?st = "empty_state\<lparr>releases := seed_db\<rparr>"
  have p: "parseRetrieveQuery ?req = Inr ?q"
    by code_simp
  have n: "toSemverRange exact_ranges (Some (js ''1.0.0'')) = js ''1.0.0''"
    by code_simp
  have rg: "ranges (test_env listing_bucket) = exact_ranges"
    by (simp add: test_env_def)
  have h: "toSemverRange (ranges (test_env listing_bucket)) (q_appVersion ?q) \<noteq> js ''*'' \<or>
         toSemverRange (ranges (test_env listing_bucket)) (q_systemVersion ?q) \<noteq> js ''*'' \<or> q_prerelease ?q"
    using n rg by simp
  have r: "fst (getReleaseFromS3 (test_env listing_bucket) (q_prerelease ?q)
                    (Some (toSemverRange (ranges (test_env listing_bucket)) (q_appVersion ?q)))
                    (Some (toSemverRange (ranges (test_env listing_bucket)) (q_systemVersion ?q)))
                    (q_sku ?q) (releaseCache ?st)) =
     Inr \<lparr>appVersion = js ''1.0.0'', appUrl = js ''https://cdn.test.com/app/1.0.0/jetkvm_app'',
          appHash = js ''hash-app-100'', appCachedAt = Some 1700000000000, appMaxSatisfying = Some (js ''1.0.0''),
          systemVersion = js ''1.1.0'', systemUrl = js ''https://cdn.test.com/system/1.1.0/system.tar'',
          systemHash = js ''hash-sys-110'', systemCachedAt = Some 1700000000000,
          systemMaxSatisfying = Some (js ''*'')\<rparr>"
    by code_simp
  note w = Retrieve_pin_bypass [OF p h refl, of ?st]
  from w have i: "fst (Retrieve (test_env listing_bucket) ?req (?st\<lparr>releases := []\<rparr>)) =
                  fst (Retrieve (test_env listing_bucket) ?req ?st)"
    by blast
  have e: "?st\<lparr>releases := []\<rparr> = empty_state\<lparr>releases := []\<rparr>"
    by simp
  from w r have a: "fst (Retrieve (test_env listing_bucket) ?req ?st) =
     Inr \<lparr>appVersion = js ''1.0.0'', appUrl = js ''https://cdn.test.com/app/1.0.0/jetkvm_app'',
          appHash = js ''hash-app-100'', appCachedAt = Some 1700000000000, appMaxSatisfying = Some (js ''1.0.0''),
          systemVersion = js ''1.1.0'', systemUrl = js ''https://cdn.test.com/system/1.1.0/system.tar'',
          systemHash = js ''hash-sys-110'', systemCachedAt = Some 1700000000000,
          systemMaxSatisfying = Some (js ''*'')\<rparr>"
    by simp
  from w have b: "releases (snd (Retrieve (test_env listing_bucket) ?req ?st)) = seed_db"
    by simp
  let ?req' = "[js ''deviceId'' \<mapsto> js ''device-123'', js ''prerelease'' \<mapsto> js ''true'']"
  let ?q' = "\<lparr>q_deviceId = js ''device-123'', q_prerelease = True, q_appVersion = None,
          q_systemVersion = None, q_sku = js ''jetkvm-v2'', q_forceUpdate = False\<rparr>"
  let ?e1 = "(test_env partial_bucket)\<lparr>rejectsFirst := First\<rparr>"
  let ?e2 = "(test_env partial_bucket)\<lparr>rejectsFirst := Second\<rparr>"
  have p': "parseRetrieveQuery ?req' = Inr ?q'"
    by code_simp
  have la: "fst (getLatestVersion (test_env partial_bucket) App True (Some (js ''*'')) (js ''jetkvm-v2'') Map.empty) =
     Inl (ClientFault (S3Fault (js ''NoSuchKey'') (js ''The specified key does not exist.'') (Some 404)))"
    by code_simp
  have ls: "fst (getLatestVersion (test_env partial_bucket) System True (Some (js ''*'')) (js ''jetkvm-v2'') Map.empty) =
     Inl (NotFoundError (js ''No versions found under prefix system''))"
    by code_simp
  have h1: "toSemverRange (ranges ?e1) (q_appVersion ?q') \<noteq> js ''*'' \<or>
         toSemverRange (ranges ?e1) (q_systemVersion ?q') \<noteq> js ''*'' \<or> q_prerelease ?q'"
    by simp
  have h2: "toSemverRange (ranges ?e2) (q_appVersion ?q') \<noteq> js ''*'' \<or>
         toSemverRange (ranges ?e2) (q_systemVersion ?q') \<noteq> js ''*'' \<or> q_prerelease ?q'"
    by simp
  have r1: "fst (getReleaseFromS3 ?e1 (q_prerelease ?q')
                    (Some (toSemverRange (ranges ?e1) (q_appVersion ?q')))
                    (Some (toSemverRange (ranges ?e1) (q_systemVersion ?q')))
                    (q_sku ?q') (releaseCache empty_state)) =
     Inl (ClientFault (S3Fault (js ''NoSuchKey'') (js ''The specified key does not exist.'') (Some 404)))"
    by code_simp
  have r2: "fst (getReleaseFromS3 ?e2 (q_prerelease ?q')
                    (Some (toSemverRange (ranges ?e2) (q_appVersion ?q')))
                    (Some (toSemverRange (ranges ?e2) (q_systemVersion ?q')))
                    (q_sku ?q') (releaseCache empty_state)) =
     Inl (NotFoundError (js ''No versions found under prefix system''))"
    by code_simp
  have t1: "remoteFailure (ClientFault (S3Fault (js ''NoSuchKey'') (js ''The specified key does not exist.'') (Some 404))) =
     InternalServerError (js ''Failed to get the latest release from S3: NoSuchKey: The specified key does not exist.'')"
    by code_simp
  have t2: "remoteFailure (ClientFault (S3Fault (js ''TimeoutError'') [] None)) =
     InternalServerError (js ''Failed to get the latest release from S3: TimeoutError'')"
    by code_simp
  from Retrieve_pin_bypass [OF p' h1 refl, of empty_state] r1 t1
  have f1: "fst (Retrieve ?e1 ?req' empty_state) =
     Inl (InternalServerError
            (js ''Failed to get the latest release from S3: NoSuchKey: The specified key does not exist.''))"
    by simp
  from Retrieve_pin_bypass [OF p' h2 refl, of empty_state] r2
  have f2: "fst (Retrieve ?e2 ?req' empty_state) = Inl (NotFoundError (js ''No versions found under prefix system''))"
    by (simp add: remoteFailure_def)
  from a b i p n p' la ls f1 f2 t2 show ?thesis
    unfolding e by simp
qed

text \<open>
  C5. On the path of \<^verbatim>\<open>Retrieve\<close> that is neither a prerelease request nor a pinned one,
  once the remote resolution has succeeded, the store after the request is the store after
  the upsert of the resolved app version followed by the upsert of the resolved system
  version. Such an upsert appends a row with rollout percentage 10 and the resolved URL and
  digest when the store has no row for the version and kind; when it has one, it returns
  that row and leaves the store as it is.
\<close>

theorem Retrieve_upsert_creates_at_10:
  assumes "parseRetrieveQuery req = Inr query"
    and "\<not> q_prerelease query"
    and "toSemverRange (ranges e) (q_appVersion query) = js ''*''"
    and "toSemverRange (ranges e) (q_systemVersion query) = js ''*''"
    and "fst (getReleaseFromS3 e False (Some (js ''*'')) (Some (js ''*'')) (q_sku query) (releaseCache st)) = Inr r"
  shows "releases (snd (Retrieve e req st)) =
           snd (upsertLatest
                  (snd (upsertLatest (releases st) App (appVersion r) (appUrl r) (appHash r)))
                  System (systemVersion r) (systemUrl r) (systemHash r)) \<and>
         (\<forall>db t v u h. release_find db (v, t) = None \<longrightarrow>
            upsertLatest db t v u h =
              (\<lparr>r_version = v, r_type = t, rolloutPercentage = 10, r_url = u, r_hash = h\<rparr>,
               db @ [\<lparr>r_version = v, r_type = t, rolloutPercentage = 10, r_url = u, r_hash = h\<rparr>])) \<and>
         (\<forall>db t v u h row. release_find db (v, t) = Some row \<longrightarrow>
            upsertLatest db t v u h = (row, db))"
proof (intro conjI allI impI)
  show "releases (snd (Retrieve e req st)) =
           snd (upsertLatest
                  (snd (upsertLatest (releases st) App (appVersion r) (appUrl r) (appHash r)))
                  System (systemVersion r) (systemUrl r) (systemHash r))"
    using assms(2-5) unfolding Retrieve_parsed [OF assms(1)]
    by (simp add: Let_def split: sum.splits)
next
  fix db t v u h
  assume "release_find db (v, t) = None"
  then show "upsertLatest db t v u h =
              (\<lparr>r_version = v, r_type = t, rolloutPercentage = 10, r_url = u, r_hash = h\<rparr>,
               db @ [\<lparr>r_version = v, r_type = t, rolloutPercentage = 10, r_url = u, r_hash = h\<rparr>])"
    by (simp add: upsertLatest_def release_upsert_absent new_release_row_def)
next
  fix db t v u h row
  assume "release_find db (v, t) = Some row"
  then show "upsertLatest db t v u h = (row, db)"
    by (simp add: upsertLatest_def release_upsert_present)
qed

theorem Retrieve_upsert_creates_at_10_witness:
  "parseRetrieveQuery [js ''deviceId'' \<mapsto> js ''device-123''] =
     Inr \<lparr>q_deviceId = js ''device-123'', q_prerelease = False, q_appVersion = None,
          q_systemVersion = None, q_sku = js ''jetkvm-v2'', q_forceUpdate = False\<rparr> \<and>
   toSemverRange exact_ranges None = js ''*'' \<and>
   release_find [] (js ''1.1.0'', App) = None \<and>
   release_find [\<lparr>r_version = js ''1.1.0'', r_type = App, rolloutPercentage = 10,
        r_url = js ''https://cdn.test.com/app/1.1.0/jetkvm_app'', r_hash = js ''hash-app-110''\<rparr>] (js ''1.1.0'', System) = None \<and>
   releases (snd (Retrieve (test_env listing_bucket) [js ''deviceId'' \<mapsto> js ''device-123''] empty_state)) =
     [\<lparr>r_version = js ''1.1.0'', r_type = App, rolloutPercentage = 10,
        r_url = js ''https://cdn.test.com/app/1.1.0/jetkvm_app'', r_hash = js ''hash-app-110''\<rparr>,
      \<lparr>r_version = js ''1.1.0'', r_type = System, rolloutPercentage = 10,
        r_url = js ''https://cdn.test.com/system/1.1.0/system.tar'', r_hash = js ''hash-sys-110''\<rparr>] \<and>
   release_find seed_db (js ''1.1.0'', App) = Some (seed_row App (js ''1.1.0'') 100) \<and>
   release_find seed_db (js ''1.1.0'', System) = Some (seed_row System (js ''1.1.0'') 100) \<and>
   releases (snd (Retrieve (test_env listing_bucket) [js ''deviceId'' \<mapsto> js ''device-123'']
                    (empty_state\<lparr>releases := seed_db\<rparr>))) = seed_db"
proof -
  let ?req = "[js ''deviceId'' \<mapsto> js ''device-123'']"
  let ?q = "\<lparr>q_deviceId = js ''device-123'', q_prerelease = False, q_appVersion = None,
          q_systemVersion = None, q_sku = js ''jetkvm-v2'', q_forceUpdate = False\<rparr>"
  let ?r = "\<lparr>appVersion = js ''1.1.0'', appUrl = js ''https://cdn.test.com/app/1.1.0/jetkvm_app'',
          appHash = js ''hash-app-110'', appCachedAt = Some 1700000000000, appMaxSatisfying = Some (js ''*''),
          systemVersion = js ''1.1.0'', systemUrl = js ''https://cdn.test.com/system/1.1.0/system.tar'',
          systemHash = js ''hash-sys-110'', systemCachedAt = Some 1700000000000,
          systemMaxSatisfying = Some (js ''*'')\<rparr>"
  let ?a = "\<lparr>r_version = js ''1.1.0'', r_type = App, rolloutPercentage = 10,
        r_url = js ''https://cdn.test.com/app/1.1.0/jetkvm_app'', r_hash = js ''hash-app-110''\<rparr>"
  have p: "parseRetrieveQuery ?req = Inr ?q"
    by code_simp
  have n: "toSemverRange exact_ranges None = js ''*''"
    by (simp add: toSemverRange_def)
  have rg: "ranges (test_env listing_bucket) = exact_ranges"
    by (simp add: test_env_def)
  have h2: "\<not> q_prerelease ?q" by simp
  have h3: "toSemverRange (ranges (test_env listing_bucket)) (q_appVersion ?q) = js ''*''"
    using n rg by simp
  have h4: "toSemverRange (ranges (test_env listing_bucket)) (q_systemVersion ?q) = js ''*''"
    using n rg by simp
  have h5: "\<And>db. fst (getReleaseFromS3 (test_env listing_bucket) False (Some (js ''*'')) (Some (js ''*'')) (q_sku ?q)
                       (releaseCache (empty_state\<lparr>releases := db\<rparr>))) = Inr ?r"
    by code_simp
  have f1: "release_find [] (js ''1.1.0'', App) = None"
    by code_simp
  have f2: "release_find [?a] (js ''1.1.0'', System) = None"
    by code_simp
  have f3: "release_find seed_db (js ''1.1.0'', App) = Some (seed_row App (js ''1.1.0'') 100)"
    by code_simp
  have f4: "release_find seed_db (js ''1.1.0'', System) = Some (seed_row System (js ''1.1.0'') 100)"
    by code_simp
  note fresh = Retrieve_upsert_creates_at_10 [OF p h2 h3 h4 h5 [of "[]"]]
  note seeded = Retrieve_upsert_creates_at_10 [OF p h2 h3 h4 h5 [of seed_db]]
  have e: "empty_state\<lparr>releases := []\<rparr> = empty_state"
    by (simp add: empty_state_def)
  from fresh have u1: "upsertLatest [] App (js ''1.1.0'') (js ''https://cdn.test.com/app/1.1.0/jetkvm_app'') (js ''hash-app-110'')
                        = (?a, [] @ [?a])"
    using f1 by blast
  from fresh have u2: "upsertLatest [?a] System (js ''1.1.0'') (js ''https://cdn.test.com/system/1.1.0/system.tar'') (js ''hash-sys-110'')
     = (\<lparr>r_version = js ''1.1.0'', r_type = System, rolloutPercentage = 10,
          r_url = js ''https://cdn.test.com/system/1.1.0/system.tar'', r_hash = js ''hash-sys-110''\<rparr>,
        [?a] @ [\<lparr>r_version = js ''1.1.0'', r_type = System, rolloutPercentage = 10,
          r_url = js ''https://cdn.test.com/system/1.1.0/system.tar'', r_hash = js ''hash-sys-110''\<rparr>])"
    using f2 by blast
  from seeded have u3: "\<And>u h. upsertLatest seed_db App (js ''1.1.0'') u h = (seed_row App (js ''1.1.0'') 100, seed_db)"
    using f3 by blast
  from seeded have u4: "\<And>u h. upsertLatest seed_db System (js ''1.1.0'') u h = (seed_row System (js ''1.1.0'') 100, seed_db)"
    using f4 by blast
  have a: "releases (snd (Retrieve (test_env listing_bucket) ?req empty_state)) =
     [?a, \<lparr>r_version = js ''1.1.0'', r_type = System, rolloutPercentage = 10,
        r_url = js ''https://cdn.test.com/system/1.1.0/system.tar'', r_hash = js ''hash-sys-110''\<rparr>]"
    using fresh u1 u2 unfolding e by (simp add: empty_state_def)
  have b: "releases (snd (Retrieve (test_env listing_bucket) ?req (empty_state\<lparr>releases := seed_db\<rparr>))) = seed_db"
    using seeded u3 u4 by simp
  from a b p n f1 f2 f3 f4 show ?thesis
    by simp
qed

section \<open>Integrity of served artifacts\<close>

lemma verifyHash_cases:
  "verifyHash sha decode (Some content) (Some hashBytes) exn =
     (if trim (trimEnd (decode hashBytes)) = digest_hex (sha content) then Inr True
      else (case exn of
              None \<Rightarrow> Inr False
            | Some reason \<Rightarrow> if reason = [] then Inr False else Inl (InternalServerError reason)))"
  by (simp add: verifyHash_def streamToString_def Let_def split: option.splits)

lemma fetchVerified_Inr:
  assumes "fetchVerified e path missing reason = Inr target" and "reason \<noteq> []"
  shows "target = baseUrl e @ js ''/'' @ path \<and>
         (\<exists>content hashBytes. getObject (s3 e) path = Inr (Some content) \<and>
             getObject (s3 e) (path @ js ''.sha256'') = Inr (Some hashBytes) \<and>
             trim (trimEnd (utf8Decode e hashBytes)) = digest_hex (sha256Digest e content))"
  using assms
  by (auto simp: fetchVerified_def promiseAll_def sendGetObject_def verifyHash_cases
           split: sum.splits option.splits if_splits position.splits)

lemma latestAppCallback_Inr:
  assumes "latestAppCallback e query = Inr target"
  shows "\<exists>path content hashBytes. target = baseUrl e @ js ''/'' @ path \<and>
             getObject (s3 e) path = Inr (Some content) \<and>
             getObject (s3 e) (path @ js ''.sha256'') = Inr (Some hashBytes) \<and>
             trim (trimEnd (utf8Decode e hashBytes)) = digest_hex (sha256Digest e content)"
proof -
  from assms obtain path missing where
    "fetchVerified e path missing (js ''app hash does not match'') = Inr target"
    by (auto simp: latestAppCallback_def Let_def split: sum.splits option.splits if_splits)
  from fetchVerified_Inr [OF this] show ?thesis by auto
qed

lemma latestSystemRecoveryCallback_Inr:
  assumes "latestSystemRecoveryCallback e query = Inr target"
  shows "\<exists>path content hashBytes. target = baseUrl e @ js ''/'' @ path \<and>
             getObject (s3 e) path = Inr (Some content) \<and>
             getObject (s3 e) (path @ js ''.sha256'') = Inr (Some hashBytes) \<and>
             trim (trimEnd (utf8Decode e hashBytes)) = digest_hex (sha256Digest e content)"
proof -
  from assms obtain path missing where
    "fetchVerified e path missing (js ''system recovery image hash does not match'') = Inr target"
    by (auto simp: latestSystemRecoveryCallback_def Let_def split: sum.splits option.splits if_splits)
  from fetchVerified_Inr [OF this] show ?thesis by auto
qed

lemma cachedRedirect_miss:
  assumes "redirectCache st (cachedKey \<lparr>l_prerelease = queryBoolean (req (js ''prerelease'')),
                                         l_sku = querySku (req (js ''sku''))\<rparr>) = None"
  shows "fst (cachedRedirect cachedKey callback req st) =
           (case callback \<lparr>l_prerelease = queryBoolean (req (js ''prerelease'')), l_sku = querySku (req (js ''sku''))\<rparr> of
              Inl err \<Rightarrow> Inl err
            | Inr result \<Rightarrow> Inr (302, result))"
  using assms
  by (simp add: cachedRedirect_def parseLatestQuery_def Let_def split: sum.splits)

text \<open>
  C8, as amended. \<^verbatim>\<open>verifyHash\<close> compares the hexadecimal SHA-256 digest of the artifact
  bytes with the text of the digest file, decoded and without the white space around it. When they are equal it returns true. When
  they differ, it raises an internal server error carrying the reason if a reason that is
  not empty was supplied, and returns false if no reason, or an empty one, was supplied.
  Hence a redirect endpoint that has no cached target for the request redirects only to an
  artifact whose digest file matches its bytes.
\<close>

theorem verifyHash_integrity:
  "(trim (trimEnd (decode hashBytes)) = digest_hex (sha content) \<longrightarrow>
      verifyHash sha decode (Some content) (Some hashBytes) exn = Inr True) \<and>
   (trim (trimEnd (decode hashBytes)) \<noteq> digest_hex (sha content) \<and> reason \<noteq> [] \<longrightarrow>
      verifyHash sha decode (Some content) (Some hashBytes) (Some reason) = Inl (InternalServerError reason)) \<and>
   (trim (trimEnd (decode hashBytes)) \<noteq> digest_hex (sha content) \<longrightarrow>
      verifyHash sha decode (Some content) (Some hashBytes) None = Inr False \<and>
      verifyHash sha decode (Some content) (Some hashBytes) (Some []) = Inr False) \<and>
   (\<forall>code target.
      redirectCache st (releaseCacheKey (js ''app'') \<lparr>l_prerelease = queryBoolean (req (js ''prerelease'')),
                                                  l_sku = querySku (req (js ''sku''))\<rparr>) = None \<and>
      fst (RetrieveLatestApp e req st) = Inr (code, target) \<longrightarrow>
        (\<exists>path bytes digestBytes. target = baseUrl e @ js ''/'' @ path \<and>
             getObject (s3 e) path = Inr (Some bytes) \<and>
             getObject (s3 e) (path @ js ''.sha256'') = Inr (Some digestBytes) \<and>
             trim (trimEnd (utf8Decode e digestBytes)) = digest_hex (sha256Digest e bytes))) \<and>
   (\<forall>code target.
      redirectCache st (releaseCacheKey (js ''system-recovery'') \<lparr>l_prerelease = queryBoolean (req (js ''prerelease'')),
                                                  l_sku = querySku (req (js ''sku''))\<rparr>) = None \<and>
      fst (RetrieveLatestSystemRecovery e req st) = Inr (code, target) \<longrightarrow>
        (\<exists>path bytes digestBytes. target = baseUrl e @ js ''/'' @ path \<and>
             getObject (s3 e) path = Inr (Some bytes) \<and>
             getObject (s3 e) (path @ js ''.sha256'') = Inr (Some digestBytes) \<and>
             trim (trimEnd (utf8Decode e digestBytes)) = digest_hex (sha256Digest e bytes)))"
proof (intro conjI allI impI)
  show "trim (trimEnd (decode hashBytes)) = digest_hex (sha content) \<Longrightarrow>
      verifyHash sha decode (Some content) (Some hashBytes) exn = Inr True"
    by (simp add: verifyHash_cases)
  show "trim (trimEnd (decode hashBytes)) \<noteq> digest_hex (sha content) \<and> reason \<noteq> [] \<Longrightarrow>
      verifyHash sha decode (Some content) (Some hashBytes) (Some reason) = Inl (InternalServerError reason)"
    by (simp add: verifyHash_cases)
  show "trim (trimEnd (decode hashBytes)) \<noteq> digest_hex (sha content) \<Longrightarrow>
      verifyHash sha decode (Some content) (Some hashBytes) None = Inr False"
    by (simp add: verifyHash_cases)
  show "trim (trimEnd (decode hashBytes)) \<noteq> digest_hex (sha content) \<Longrightarrow>
      verifyHash sha decode (Some content) (Some hashBytes) (Some []) = Inr False"
    by (simp add: verifyHash_cases)
next
  fix code target
  assume "redirectCache st (releaseCacheKey (js ''app'') \<lparr>l_prerelease = queryBoolean (req (js ''prerelease'')),
                                                  l_sku = querySku (req (js ''sku''))\<rparr>) = None \<and>
      fst (RetrieveLatestApp e req st) = Inr (code, target)"
  then have "latestAppCallback e \<lparr>l_prerelease = queryBoolean (req (js ''prerelease'')),
                                      l_sku = querySku (req (js ''sku''))\<rparr> = Inr target"
    unfolding RetrieveLatestApp_def
    by (auto simp: cachedRedirect_miss split: sum.splits)
  from latestAppCallback_Inr [OF this]
  show "\<exists>path bytes digestBytes. target = baseUrl e @ js ''/'' @ path \<and>
             getObject (s3 e) path = Inr (Some bytes) \<and>
             getObject (s3 e) (path @ js ''.sha256'') = Inr (Some digestBytes) \<and>
             trim (trimEnd (utf8Decode e digestBytes)) = digest_hex (sha256Digest e bytes)" .
next
  fix code target
  assume "redirectCache st (releaseCacheKey (js ''system-recovery'') \<lparr>l_prerelease = queryBoolean (req (js ''prerelease'')),
                                                  l_sku = querySku (req (js ''sku''))\<rparr>) = None \<and>
      fst (RetrieveLatestSystemRecovery e req st) = Inr (code, target)"
  then have "latestSystemRecoveryCallback e \<lparr>l_prerelease = queryBoolean (req (js ''prerelease'')),
                                      l_sku = querySku (req (js ''sku''))\<rparr> = Inr target"
    unfolding RetrieveLatestSystemRecovery_def
    by (auto simp: cachedRedirect_miss split: sum.splits)
  from latestSystemRecoveryCallback_Inr [OF this]
  show "\<exists>path bytes digestBytes. target = baseUrl e @ js ''/'' @ path \<and>
             getObject (s3 e) path = Inr (Some bytes) \<and>
             getObject (s3 e) (path @ js ''.sha256'') = Inr (Some digestBytes) \<and>
             trim (trimEnd (utf8Decode e digestBytes)) = digest_hex (sha256Digest e bytes)" .
qed

theorem verifyHash_integrity_witness:
  "trim (trimEnd (utf8_decode (''50b744fce14122883b4b3cf6cbf015954d5f68a34a55cabc9d14007fd980cab5'' @ [CHR 0x0A]))) =
     digest_hex (sha256_table ''app-binary-content'') \<and>
   verifyHash sha256_table utf8_decode (Some ''app-binary-content'')
     (Some (''50b744fce14122883b4b3cf6cbf015954d5f68a34a55cabc9d14007fd980cab5'' @ [CHR 0x0A]))
     (Some (js ''app hash does not match'')) = Inr True \<and>
   trim (trimEnd (utf8_decode (''50b744fce14122883b4b3cf6cbf015954d5f68a34a55cabc9d14007fd980cab5'' @ [CHR 0x0A]))) \<noteq>
     digest_hex (sha256_table ''actual-content'') \<and>
   js ''app hash does not match'' \<noteq> [] \<and>
   verifyHash sha256_table utf8_decode (Some ''actual-content'')
     (Some (''50b744fce14122883b4b3cf6cbf015954d5f68a34a55cabc9d14007fd980cab5'' @ [CHR 0x0A]))
     (Some (js ''app hash does not match'')) = Inl (InternalServerError (js ''app hash does not match'')) \<and>
   verifyHash sha256_table utf8_decode (Some ''actual-content'')
     (Some (''50b744fce14122883b4b3cf6cbf015954d5f68a34a55cabc9d14007fd980cab5'' @ [CHR 0x0A]))
     None = Inr False \<and>
   redirectCache empty_state (js ''app-stable-jetkvm-v2'') = None \<and>
   fst (RetrieveLatestApp (test_env verified_bucket) Map.empty empty_state) =
     Inr (302, js ''https://cdn.test.com/app/1.2.0/jetkvm_app'') \<and>
   getObject (s3 (test_env verified_bucket)) (js ''app/1.2.0/jetkvm_app'') = Inr (Some ''app-binary-content'') \<and>
   fst (RetrieveLatestApp (test_env tampered_bucket) Map.empty empty_state) =
     Inl (InternalServerError (js ''app hash does not match'')) \<and>
   trim (trimEnd (utf8_decode ([CHR 0xEF, CHR 0xBB, CHR 0xBF] @
       ''50b744fce14122883b4b3cf6cbf015954d5f68a34a55cabc9d14007fd980cab5'' @ [CHR 0x0A]))) =
     digest_hex (sha256_table ''app-binary-content'') \<and>
   verifyHash sha256_table utf8_decode (Some ''app-binary-content'')
     (Some ([CHR 0xEF, CHR 0xBB, CHR 0xBF] @
       ''50b744fce14122883b4b3cf6cbf015954d5f68a34a55cabc9d14007fd980cab5'' @ [CHR 0x0A]))
     (Some (js ''app hash does not match'')) = Inr True \<and>
   fst (RetrieveLatestApp (test_env bom_bucket) Map.empty empty_state) =
     Inr (302, js ''https://cdn.test.com/app/1.2.0/jetkvm_app'')"
proof -
  let ?h = "''50b744fce14122883b4b3cf6cbf015954d5f68a34a55cabc9d14007fd980cab5'' @ [CHR 0x0A]"
  have m: "trim (trimEnd (utf8_decode ?h)) = digest_hex (sha256_table ''app-binary-content'')"
    by code_simp
  have n: "trim (trimEnd (utf8_decode ?h)) \<noteq> digest_hex (sha256_table ''actual-content'')"
    by code_simp
  let ?b = "[CHR 0xEF, CHR 0xBB, CHR 0xBF] @
       ''50b744fce14122883b4b3cf6cbf015954d5f68a34a55cabc9d14007fd980cab5'' @ [CHR 0x0A]"
  have mb: "trim (trimEnd (utf8_decode ?b)) = digest_hex (sha256_table ''app-binary-content'')"
    by code_simp
  have gb: "fst (RetrieveLatestApp (test_env bom_bucket) Map.empty empty_state) =
     Inr (302, js ''https://cdn.test.com/app/1.2.0/jetkvm_app'')"
    by code_simp
  have k: "redirectCache empty_state (js ''app-stable-jetkvm-v2'') = None"
    by (simp add: empty_state_def)
  have g: "fst (RetrieveLatestApp (test_env verified_bucket) Map.empty empty_state) =
     Inr (302, js ''https://cdn.test.com/app/1.2.0/jetkvm_app'')"
    by code_simp
  have o: "getObject (s3 (test_env verified_bucket)) (js ''app/1.2.0/jetkvm_app'') = Inr (Some ''app-binary-content'')"
    by code_simp
  have t: "fst (RetrieveLatestApp (test_env tampered_bucket) Map.empty empty_state) =
     Inl (InternalServerError (js ''app hash does not match''))"
    by code_simp
  from verifyHash_integrity [where decode = utf8_decode and hashBytes = ?h and sha = sha256_table
         and content = "''app-binary-content''" and exn = "Some (js ''app hash does not match'')"] m
  have a: "verifyHash sha256_table utf8_decode (Some ''app-binary-content'') (Some ?h)
             (Some (js ''app hash does not match'')) = Inr True"
    by blast
  from verifyHash_integrity [where decode = utf8_decode and hashBytes = ?h and sha = sha256_table
         and content = "''actual-content''" and reason = "js ''app hash does not match''"] n
  have b: "verifyHash sha256_table utf8_decode (Some ''actual-content'') (Some ?h)
             (Some (js ''app hash does not match'')) = Inl (InternalServerError (js ''app hash does not match''))"
    and c: "verifyHash sha256_table utf8_decode (Some ''actual-content'') (Some ?h) None = Inr False"
    by simp_all
  from verifyHash_integrity [where decode = utf8_decode and hashBytes = ?b and sha = sha256_table
         and content = "''app-binary-content''" and exn = "Some (js ''app hash does not match'')"] mb
  have ab: "verifyHash sha256_table utf8_decode (Some ''app-binary-content'') (Some ?b)
             (Some (js ''app hash does not match'')) = Inr True"
    by blast
  from a b c m n k g o t mb ab gb show ?thesis
    by simp
qed

text \<open>
  The claim as stated fails in two places. With an empty reason supplied, a mismatch makes
  \<^verbatim>\<open>verifyHash\<close> return false, not raise. And after a request has cached the redirect
  target of a verified artifact, a later request is redirected to that target although the
  artifact in the store no longer matches its digest file.
\<close>

theorem verifyHash_integrity_counterexample:
  "trim (trimEnd (utf8_decode (''50b744fce14122883b4b3cf6cbf015954d5f68a34a55cabc9d14007fd980cab5'' @ [CHR 0x0A]))) \<noteq>
     digest_hex (sha256_table ''actual-content'') \<and>
   verifyHash sha256_table utf8_decode (Some ''actual-content'')
     (Some (''50b744fce14122883b4b3cf6cbf015954d5f68a34a55cabc9d14007fd980cab5'' @ [CHR 0x0A]))
     (Some []) = Inr False \<and>
   getObject (s3 (test_env tampered_bucket)) (js ''app/1.2.0/jetkvm_app'') = Inr (Some ''actual-content'') \<and>
   getObject (s3 (test_env tampered_bucket)) (js ''app/1.2.0/jetkvm_app.sha256'') =
     Inr (Some (''50b744fce14122883b4b3cf6cbf015954d5f68a34a55cabc9d14007fd980cab5'' @ [CHR 0x0A])) \<and>
   fst (RetrieveLatestApp (test_env tampered_bucket) Map.empty
          (snd (RetrieveLatestApp (test_env verified_bucket) Map.empty empty_state))) =
     Inr (302, js ''https://cdn.test.com/app/1.2.0/jetkvm_app'')"
  by code_simp

end
